theory Spec2Isabelle
  imports Complex_Main "HOL-Library.AList"
begin

section \<open>Values handled by the adapter\<close>

text \<open>
  The adapter \<^verbatim>\<open>PyTorchModel\<close> of \<^verbatim>\<open>lume_model/pytorch/__init__.py\<close> moves numbers
  between dictionaries, variable records and tensors; it performs no arithmetic of its
  own. Numbers are therefore idealised as \<^typ>\<open>real\<close>. A tensor keeps what the
  adapter can observe of it: the dtype, the gradient flag, the shape and the elements
  in row-major order. The element count of a tensor is the length of its element list.
\<close>

datatype dtype = Float32 | Float64

record tensor =
  tdtype :: dtype
  requires_grad :: bool
  tshape :: "nat list"
  tdata :: "real list"

record ndarray =
  adtype :: dtype
  ashape :: "nat list"
  adata :: "real list"

datatype error =
    KeyError string
  | AttributeError
  | IndexError
  | ValueError
  | RuntimeError string

text \<open>
  A Python value as a variable can hold it or a caller can pass it: \<^verbatim>\<open>None\<close>, a
  \<^verbatim>\<open>float\<close>, an \<^verbatim>\<open>int\<close>, a \<^verbatim>\<open>torch.Tensor\<close> or a \<^verbatim>\<open>numpy.ndarray\<close>. An
  \<^verbatim>\<open>int\<close> is a number but no instance of \<^verbatim>\<open>float\<close>.
\<close>

datatype pyval = PyNone | PyFloat real | PyInt int | PyTensor tensor | PyArray ndarray

fun bind :: "error + 'a \<Rightarrow> ('a \<Rightarrow> error + 'b) \<Rightarrow> error + 'b" where
  "bind (Inl e) f = Inl e"
| "bind (Inr x) f = f x"

text \<open>A \<^verbatim>\<open>for\<close> loop that collects one result per element and stops at the first raise.\<close>

fun for_each :: "('a \<Rightarrow> error + 'b) \<Rightarrow> 'a list \<Rightarrow> error + 'b list" where
  "for_each f [] = Inr []"
| "for_each f (x # xs) = bind (f x) (\<lambda>y. bind (for_each f xs) (\<lambda>ys. Inr (y # ys)))"

text \<open>\<^verbatim>\<open>d[k]\<close> on a dictionary kept as an association list.\<close>

definition getitem :: "(string \<times> 'v) list \<Rightarrow> string \<Rightarrow> error + 'v" where
  "getitem d k = (case map_of d k of None \<Rightarrow> Inl (KeyError k) | Some v \<Rightarrow> Inr v)"

subsection \<open>The tensor operations the adapter calls\<close>

text \<open>
  The operations of \<^verbatim>\<open>torch\<close> and \<^verbatim>\<open>numpy\<close> are described as far as the adapter
  relies on them: when they raise and what they return. Which exception class a failing
  library call raises varies between library versions; nothing below depends on it
  beyond its not being a \<^verbatim>\<open>KeyError\<close>. A shape is a tuple of dimension sizes.
\<close>

definition numel :: "tensor \<Rightarrow> nat" where
  "numel t = length (tdata t)"

text \<open>\<^verbatim>\<open>t.item()\<close>: the single element of a one-element tensor.\<close>

definition item :: "tensor \<Rightarrow> error + real" where
  "item t = (case tdata t of [x] \<Rightarrow> Inr x | _ \<Rightarrow> Inl ValueError)"

text \<open>
  \<^verbatim>\<open>x.item()\<close> on an arbitrary value; \<^verbatim>\<open>None\<close>, \<^verbatim>\<open>float\<close> and \<^verbatim>\<open>int\<close> have no
  such method.
\<close>

fun py_item :: "pyval \<Rightarrow> error + pyval" where
  "py_item (PyTensor t) = bind (item t) (\<lambda>r. Inr (PyFloat r))"
| "py_item (PyArray a) = (case adata a of [x] \<Rightarrow> Inr (PyFloat x) | _ \<Rightarrow> Inl ValueError)"
| "py_item PyNone = Inl AttributeError"
| "py_item (PyFloat r) = Inl AttributeError"
| "py_item (PyInt n) = Inl AttributeError"

fun is_tensor :: "pyval \<Rightarrow> bool" where
  "is_tensor (PyTensor t) = True"
| "is_tensor v = False"

text \<open>\<^verbatim>\<open>torch.tensor(v, dtype=torch.double, requires_grad=True)\<close>.\<close>

fun torch_tensor :: "pyval \<Rightarrow> error + tensor" where
  "torch_tensor (PyFloat r) =
     Inr \<lparr>tdtype = Float64, requires_grad = True, tshape = [], tdata = [r]\<rparr>"
| "torch_tensor (PyArray a) =
     Inr \<lparr>tdtype = Float64, requires_grad = True, tshape = ashape a, tdata = adata a\<rparr>"
| "torch_tensor (PyTensor t) = Inr (t\<lparr>tdtype := Float64, requires_grad := True\<rparr>)"
| "torch_tensor (PyInt n) =
     Inr \<lparr>tdtype = Float64, requires_grad = True, tshape = [], tdata = [of_int n]\<rparr>"
| "torch_tensor PyNone = Inl (RuntimeError ''Could not infer dtype of NoneType'')"

fun promote :: "dtype \<Rightarrow> dtype \<Rightarrow> dtype" where
  "promote Float32 Float32 = Float32"
| "promote a b = Float64"

text \<open>
  \<^verbatim>\<open>torch.stack(ts)\<close>: the list must be non-empty and all shapes equal; the result
  has one more leading dimension.
\<close>

definition stack :: "tensor list \<Rightarrow> error + tensor" where
  "stack ts =
     (case ts of
        [] \<Rightarrow> Inl (RuntimeError ''stack expects a non-empty TensorList'')
      | t # rest \<Rightarrow>
          if \<forall>u \<in> set rest. tshape u = tshape t
          then Inr \<lparr>tdtype = foldl promote (tdtype t) (map tdtype rest),
                    requires_grad = (\<exists>u \<in> set ts. requires_grad u),
                    tshape = length ts # tshape t,
                    tdata = concat (map tdata ts)\<rparr>
          else Inl (RuntimeError ''stack expects each tensor to be equal size''))"

text \<open>\<^verbatim>\<open>t[idx]\<close> for a non-negative \<^verbatim>\<open>idx\<close>: the slice along the first dimension.\<close>

definition index :: "tensor \<Rightarrow> nat \<Rightarrow> error + tensor" where
  "index t idx =
     (case tshape t of
        [] \<Rightarrow> Inl IndexError
      | n # rest \<Rightarrow>
          if idx < n
          then Inr (t\<lparr>tshape := rest,
                      tdata := take (prod_list rest) (drop (idx * prod_list rest) (tdata t))\<rparr>)
          else Inl IndexError)"

text \<open>
  \<^verbatim>\<open>t.reshape(shape)\<close> keeps the elements and needs the new shape to hold exactly
  as many; \<^verbatim>\<open>t.numpy()\<close> refuses a tensor that tracks gradients.
\<close>

definition reshape :: "tensor \<Rightarrow> nat list \<Rightarrow> error + tensor" where
  "reshape t shp =
     (if prod_list shp = numel t then Inr (t\<lparr>tshape := shp\<rparr>)
      else Inl (RuntimeError ''shape is invalid for input size''))"

definition numpy :: "tensor \<Rightarrow> error + ndarray" where
  "numpy t =
     (if requires_grad t
      then Inl (RuntimeError ''Can't call numpy() on Tensor that requires grad'')
      else Inr \<lparr>adtype = tdtype t, ashape = tshape t, adata = tdata t\<rparr>)"

section \<open>Variables, transformers and the adapter\<close>

text \<open>
  \<^verbatim>\<open>lume_model.variables\<close> is imported by the adapter; of its classes the adapter
  reads and writes the attributes below. The bound back-references of an image
  variable are optional names.
\<close>

record variable =
  name :: string
  var_value :: pyval

record input_variable = variable +
  var_default :: pyval

record output_variable = variable +
  variable_type :: string
  shape :: "nat list"
  x_min :: real
  x_max :: real
  y_min :: real
  y_max :: real
  x_min_variable :: "string option"
  x_max_variable :: "string option"
  y_min_variable :: "string option"
  y_max_variable :: "string option"

text \<open>A transformer and the model are opaque callables on tensors; they may raise.\<close>

record transformer =
  forward :: "tensor \<Rightarrow> error + tensor"
  untransform :: "tensor \<Rightarrow> error + tensor"

datatype log_record = MissingInput string

text \<open>
  The state of one adapter object. The registries are Python dictionaries, kept as
  association lists in insertion order. \<open>logged\<close> collects what the module's logger
  has been given.
\<close>

record pytorch_model =
  input_variables :: "(string \<times> input_variable) list"
  output_variables :: "(string \<times> output_variable) list"
  input_transformers :: "transformer list"
  output_transformers :: "transformer list"
  model :: "tensor \<Rightarrow> error + tensor"
  output_format :: "(string \<times> string) list option"
  feature_order :: "string list option"
  output_order :: "string list option"
  logged :: "log_record list"

text \<open>What a caller may pass for one input, and what \<^verbatim>\<open>evaluate\<close> may return.\<close>

datatype input_entry = Variable input_variable | Raw pyval

datatype evaluate_output =
    TensorOut "(string \<times> tensor) list"
  | VariableOut "(string \<times> output_variable) list"
  | ValueOut "(string \<times> pyval) list"

section \<open>The stages of evaluate\<close>

text \<open>
  Every stage returns \<open>Inl\<close> of the exception it raises or \<open>Inr\<close> of its result;
  a stage that assigns to the registries also returns the adapter after the
  assignments. The registries of a call that raised are not described.
\<close>

subsection \<open>prepare_inputs\<close>

text \<open>
  The three branches inside the \<^verbatim>\<open>try\<close> block, on the entry the caller supplied:
  an \<^verbatim>\<open>InputVariable\<close>, a \<^verbatim>\<open>float\<close>, anything else. An \<^verbatim>\<open>int\<close> fails the test
  \<^verbatim>\<open>isinstance(.., float)\<close> and so reaches the last branch.
\<close>

fun resolve :: "input_entry \<Rightarrow> error + pyval" where
  "resolve (Variable v) = Inr (var_value v)"
| "resolve (Raw (PyFloat r)) = Inr (PyFloat r)"
| "resolve (Raw x) = py_item x"

text \<open>
  One round of the first loop: the \<^verbatim>\<open>KeyError\<close> of the lookup in the caller's
  dictionary is caught, the default is stored and the substitution is logged.
\<close>

definition resolve_input ::
  "(string \<rightharpoonup> input_entry) \<Rightarrow> string \<times> input_variable
     \<Rightarrow> error + ((string \<times> input_variable) \<times> log_record list)" where
  "resolve_input inp kv =
     (case kv of (var_name, var) \<Rightarrow>
        (case inp var_name of
           None \<Rightarrow> Inr ((var_name, var\<lparr>var_value := var_default var\<rparr>), [MissingInput var_name])
         | Some e \<Rightarrow> bind (resolve e) (\<lambda>x. Inr ((var_name, var\<lparr>var_value := x\<rparr>), []))))"

text \<open>
  One round of the second loop, which fills the dictionary of tensors. The keys of the
  registry are the keys of a dictionary, hence distinct: each round adds an entry, and
  the new dictionary lists them in the registry's order.
\<close>

definition as_tensor :: "string \<times> input_variable \<Rightarrow> error + (string \<times> tensor)" where
  "as_tensor kv =
     (case kv of (var_name, var) \<Rightarrow>
        (case var_value var of
           PyTensor t \<Rightarrow> Inr (var_name, t)
         | v \<Rightarrow> bind (torch_tensor v) (\<lambda>t. Inr (var_name, t))))"

definition prepare_inputs ::
  "pytorch_model \<Rightarrow> (string \<rightharpoonup> input_entry)
     \<Rightarrow> error + ((string \<times> tensor) list \<times> pytorch_model)" where
  "prepare_inputs self inp =
     bind (for_each (resolve_input inp) (input_variables self)) (\<lambda>rs.
     bind (for_each as_tensor (map fst rs)) (\<lambda>d.
     Inr (d, self\<lparr>input_variables := map fst rs,
                  logged := logged self @ concat (map snd rs)\<rparr>)))"

subsection \<open>arrange_inputs, the transformer chains, parse_outputs\<close>

definition arrange_inputs :: "pytorch_model \<Rightarrow> (string \<times> tensor) list \<Rightarrow> error + tensor" where
  "arrange_inputs self d =
     bind (case feature_order self of
             Some order \<Rightarrow> for_each (getitem d) order
           | None \<Rightarrow> for_each (getitem d) (map fst (input_variables self)))
          stack"

fun transform_inputs_loop :: "transformer list \<Rightarrow> tensor \<Rightarrow> error + tensor" where
  "transform_inputs_loop [] input_values = Inr input_values"
| "transform_inputs_loop (t # ts) input_values =
     bind (forward t input_values) (transform_inputs_loop ts)"

definition transform_inputs :: "pytorch_model \<Rightarrow> tensor \<Rightarrow> error + tensor" where
  "transform_inputs self input_values =
     transform_inputs_loop (input_transformers self) input_values"

fun transform_outputs_loop :: "transformer list \<Rightarrow> tensor \<Rightarrow> error + tensor" where
  "transform_outputs_loop [] model_output = Inr model_output"
| "transform_outputs_loop (t # ts) model_output =
     bind (untransform t model_output) (transform_outputs_loop ts)"

definition transform_outputs :: "pytorch_model \<Rightarrow> tensor \<Rightarrow> error + tensor" where
  "transform_outputs self model_output =
     transform_outputs_loop (output_transformers self) model_output"

text \<open>\<^verbatim>\<open>for idx, output_name in enumerate(...): output[output_name] = model_output[idx]\<close>\<close>

fun parse_outputs_loop ::
  "tensor \<Rightarrow> nat \<Rightarrow> string list \<Rightarrow> (string \<times> tensor) list \<Rightarrow> error + (string \<times> tensor) list" where
  "parse_outputs_loop model_output idx [] out = Inr out"
| "parse_outputs_loop model_output idx (output_name # rest) out =
     bind (index model_output idx) (\<lambda>slot.
       parse_outputs_loop model_output (Suc idx) rest (AList.update output_name slot out))"

definition parse_outputs :: "pytorch_model \<Rightarrow> tensor \<Rightarrow> error + (string \<times> tensor) list" where
  "parse_outputs self model_output =
     (case output_order self of
        Some order \<Rightarrow> parse_outputs_loop model_output 0 order []
      | None \<Rightarrow> parse_outputs_loop model_output 0 (map fst (output_variables self)) [])"

subsection \<open>prepare_outputs\<close>

text \<open>
  \<^verbatim>\<open>self.output_variables[n].attr = rhs\<close> with the right-hand side already
  evaluated: the registry is looked up by the name \<open>n\<close> and that record is changed.
\<close>

definition set_attr ::
  "string \<Rightarrow> (output_variable \<Rightarrow> output_variable) \<Rightarrow> (string \<times> output_variable) list
     \<Rightarrow> error + (string \<times> output_variable) list" where
  "set_attr n f reg = bind (getitem reg n) (\<lambda>w. Inr (AList.update n (f w) reg))"

text \<open>
  One of the four bound updates. The condition is the truth value of the
  back-reference of the record found under \<open>n\<close>: \<^verbatim>\<open>None\<close> and the empty string
  are false.
\<close>

definition update_bound ::
  "(output_variable \<Rightarrow> string option) \<Rightarrow> (real \<Rightarrow> output_variable \<Rightarrow> output_variable)
     \<Rightarrow> (string \<times> tensor) list \<Rightarrow> string \<Rightarrow> (string \<times> output_variable) list
     \<Rightarrow> error + (string \<times> output_variable) list" where
  "update_bound ref assign predicted_output n reg =
     bind (getitem reg n) (\<lambda>w.
       case ref w of
         None \<Rightarrow> Inr reg
       | Some r \<Rightarrow>
           if r = [] then Inr reg
           else bind (getitem predicted_output r) (\<lambda>t.
                bind (item t) (\<lambda>x. set_attr n (assign x) reg)))"

text \<open>
  The body of the loop over \<^verbatim>\<open>self.output_variables.values()\<close>. Of the loop
  variable only \<open>variable_type\<close>, \<open>name\<close> and \<open>shape\<close> are read, and no statement
  assigns to these attributes; all else goes through the registry.
\<close>

definition update_output_variable ::
  "(string \<times> tensor) list \<Rightarrow> output_variable \<Rightarrow> (string \<times> output_variable) list
     \<Rightarrow> error + (string \<times> output_variable) list" where
  "update_output_variable predicted_output variable reg =
     (if variable_type variable = ''scalar'' then
        bind (getitem predicted_output (name variable)) (\<lambda>t.
        bind (item t) (\<lambda>x.
        set_attr (name variable) (\<lambda>w. w\<lparr>var_value := PyFloat x\<rparr>) reg))
      else if variable_type variable = ''image'' then
        bind (getitem predicted_output (name variable)) (\<lambda>t.
        bind (reshape t (shape variable)) (\<lambda>t'.
        bind (numpy t') (\<lambda>a.
        bind (set_attr (name variable) (\<lambda>w. w\<lparr>var_value := PyArray a\<rparr>) reg) (\<lambda>reg.
        bind (update_bound x_min_variable (\<lambda>x w. w\<lparr>x_min := x\<rparr>)
                predicted_output (name variable) reg) (\<lambda>reg.
        bind (update_bound x_max_variable (\<lambda>x w. w\<lparr>x_max := x\<rparr>)
                predicted_output (name variable) reg) (\<lambda>reg.
        bind (update_bound y_min_variable (\<lambda>x w. w\<lparr>y_min := x\<rparr>)
                predicted_output (name variable) reg) (\<lambda>reg.
        update_bound y_max_variable (\<lambda>x w. w\<lparr>y_max := x\<rparr>)
                predicted_output (name variable) reg)))))))
      else Inr reg)"

fun update_output_variables ::
  "(string \<times> tensor) list \<Rightarrow> output_variable list \<Rightarrow> (string \<times> output_variable) list
     \<Rightarrow> error + (string \<times> output_variable) list" where
  "update_output_variables predicted_output [] reg = Inr reg"
| "update_output_variables predicted_output (variable # rest) reg =
     bind (update_output_variable predicted_output variable reg)
          (update_output_variables predicted_output rest)"

text \<open>The closing dispatch on \<^verbatim>\<open>self._output_format.get("type")\<close>.\<close>

definition format_outputs ::
  "pytorch_model \<Rightarrow> (string \<times> tensor) list \<Rightarrow> error + evaluate_output" where
  "format_outputs self predicted_output =
     (case output_format self of
        None \<Rightarrow> Inl AttributeError
      | Some fmt \<Rightarrow>
          if map_of fmt ''type'' = Some ''tensor'' then Inr (TensorOut predicted_output)
          else if map_of fmt ''type'' = Some ''variable''
          then Inr (VariableOut (output_variables self))
          else Inr (ValueOut (map (\<lambda>(key, var). (key, var_value var))
                                  (output_variables self))))"

definition prepare_outputs ::
  "pytorch_model \<Rightarrow> (string \<times> tensor) list \<Rightarrow> error + (evaluate_output \<times> pytorch_model)" where
  "prepare_outputs self predicted_output =
     bind (update_output_variables predicted_output
             (map snd (output_variables self)) (output_variables self)) (\<lambda>reg.
     bind (format_outputs (self\<lparr>output_variables := reg\<rparr>) predicted_output) (\<lambda>out.
     Inr (out, self\<lparr>output_variables := reg\<rparr>)))"

subsection \<open>evaluate\<close>

definition evaluate ::
  "pytorch_model \<Rightarrow> (string \<rightharpoonup> input_entry) \<Rightarrow> error + (evaluate_output \<times> pytorch_model)" where
  "evaluate self input_variables_arg =
     bind (prepare_inputs self input_variables_arg) (\<lambda>(input_vals, self).
     bind (arrange_inputs self input_vals) (\<lambda>input_vals.
     bind (transform_inputs self input_vals) (\<lambda>features.
     bind (model self features) (\<lambda>raw_output.
     bind (transform_outputs self raw_output) (\<lambda>transformed_output.
     bind (parse_outputs self transformed_output) (\<lambda>output.
     prepare_outputs self output))))))"

text \<open>
  The first six statements of \<^verbatim>\<open>evaluate\<close>, up to the dictionary that
  \<^verbatim>\<open>_parse_outputs\<close> returns and \<^verbatim>\<open>_prepare_outputs\<close> receives.
\<close>

definition evaluate_until_parse ::
  "pytorch_model \<Rightarrow> (string \<rightharpoonup> input_entry)
     \<Rightarrow> error + ((string \<times> tensor) list \<times> pytorch_model)" where
  "evaluate_until_parse self input_variables_arg =
     bind (prepare_inputs self input_variables_arg) (\<lambda>(input_vals, self).
     bind (arrange_inputs self input_vals) (\<lambda>input_vals.
     bind (transform_inputs self input_vals) (\<lambda>features.
     bind (model self features) (\<lambda>raw_output.
     bind (transform_outputs self raw_output) (\<lambda>transformed_output.
     bind (parse_outputs self transformed_output) (\<lambda>output.
     Inr (output, self)))))))"

section \<open>Auxiliary notions for the statements\<close>

text \<open>
  The value one bound of an image variable has after its update: the old value when
  the back-reference is \<^verbatim>\<open>None\<close> or empty, else the scalar of the referenced slot.
\<close>

definition bound_value :: "(string \<times> tensor) list \<Rightarrow> string option \<Rightarrow> real \<Rightarrow> error + real" where
  "bound_value predicted_output ref old =
     (case ref of
        None \<Rightarrow> Inr old
      | Some r \<Rightarrow> if r = [] then Inr old else bind (getitem predicted_output r) item)"

text \<open>
  The caller's dictionary completed by hand: every registered name it lacks is given
  as a variable object whose value is the registry's default.
\<close>

definition with_defaults ::
  "pytorch_model \<Rightarrow> (string \<rightharpoonup> input_entry) \<Rightarrow> (string \<rightharpoonup> input_entry)" where
  "with_defaults self inp k =
     (case inp k of
        Some e \<Rightarrow> Some e
      | None \<Rightarrow> map_option (\<lambda>var. Variable (var\<lparr>var_value := var_default var\<rparr>))
                  (map_of (input_variables self) k))"

section \<open>A small adapter to evaluate\<close>

text \<open>
  Two inputs, a scalar output and an image output of one pixel whose \<open>x_min\<close> follows
  the scalar output. The network hands its input back without gradient tracking.
\<close>

definition demo_inputs :: "(string \<times> input_variable) list" where
  "demo_inputs =
     [(''x1'', \<lparr>name = ''x1'', var_value = PyNone, var_default = PyFloat 1\<rparr>),
      (''x2'', \<lparr>name = ''x2'', var_value = PyNone, var_default = PyFloat 2\<rparr>)]"

definition demo_scalar :: output_variable where
  "demo_scalar =
     \<lparr>name = ''y'', var_value = PyNone, variable_type = ''scalar'', shape = [],
      x_min = 0, x_max = 0, y_min = 0, y_max = 0,
      x_min_variable = None, x_max_variable = None,
      y_min_variable = None, y_max_variable = None\<rparr>"

definition demo_image :: output_variable where
  "demo_image =
     \<lparr>name = ''img'', var_value = PyNone, variable_type = ''image'', shape = [1, 1],
      x_min = 0, x_max = 10, y_min = 0, y_max = 10,
      x_min_variable = Some ''y'', x_max_variable = None,
      y_min_variable = Some [], y_max_variable = None\<rparr>"

definition demo_net :: "tensor \<Rightarrow> error + tensor" where
  "demo_net t = Inr (t\<lparr>requires_grad := False\<rparr>)"

definition demo :: pytorch_model where
  "demo =
     \<lparr>input_variables = demo_inputs,
      output_variables = [(''y'', demo_scalar), (''img'', demo_image)],
      input_transformers = [],
      output_transformers = [],
      model = demo_net,
      output_format = Some [(''type'', ''variable'')],
      feature_order = None,
      output_order = None,
      logged = []\<rparr>"

definition demo_call :: "string \<rightharpoonup> input_entry" where
  "demo_call = [''x1'' \<mapsto> Raw (PyFloat 5)]"

text \<open>
  Further calls: one passing a tensor and a variable object, one passing an \<^verbatim>\<open>int\<close>.
\<close>

definition demo_call_mixed :: "string \<rightharpoonup> input_entry" where
  "demo_call_mixed =
     [''x1'' \<mapsto> Raw (PyTensor \<lparr>tdtype = Float32, requires_grad = False, tshape = [1],
                                  tdata = [5]\<rparr>),
      ''x2'' \<mapsto> Variable \<lparr>name = ''x2'', var_value = PyFloat 2, var_default = PyFloat 0\<rparr>]"

definition demo_call_int :: "string \<rightharpoonup> input_entry" where
  "demo_call_int = [''x1'' \<mapsto> Raw (PyInt 5)]"

text \<open>Two transformers whose inverses do not commute: a shift by one and a doubling.\<close>

definition on_data :: "(real \<Rightarrow> real) \<Rightarrow> tensor \<Rightarrow> error + tensor" where
  "on_data f t = Inr (t\<lparr>tdata := map f (tdata t)\<rparr>)"

definition shift :: transformer where
  "shift = \<lparr>forward = on_data (\<lambda>x. x - 1), untransform = on_data (\<lambda>x. x + 1)\<rparr>"

definition halve :: transformer where
  "halve = \<lparr>forward = on_data (\<lambda>x. x / 2), untransform = on_data (\<lambda>x. x * 2)\<rparr>"

definition scalar_tensor :: "real \<Rightarrow> tensor" where
  "scalar_tensor x = \<lparr>tdtype = Float64, requires_grad = False, tshape = [], tdata = [x]\<rparr>"

text \<open>The dictionary parsed in the call \<open>demo_call\<close> and the adapter after that call.\<close>

definition demo_parsed :: "(string \<times> tensor) list" where
  "demo_parsed = [(''y'', scalar_tensor 5), (''img'', scalar_tensor 2)]"

definition demo_outputs_after :: "(string \<times> output_variable) list" where
  "demo_outputs_after =
     [(''y'', demo_scalar\<lparr>var_value := PyFloat 5\<rparr>),
      (''img'', demo_image\<lparr>var_value := PyArray \<lparr>adtype = Float64, ashape = [1, 1], adata = [2]\<rparr>,
                          x_min := 5\<rparr>)]"

definition demo_prepared :: pytorch_model where
  "demo_prepared =
     demo\<lparr>input_variables :=
            [(''x1'', \<lparr>name = ''x1'', var_value = PyFloat 5, var_default = PyFloat 1\<rparr>),
             (''x2'', \<lparr>name = ''x2'', var_value = PyFloat 2, var_default = PyFloat 2\<rparr>)],
          logged := [MissingInput ''x2'']\<rparr>"

text \<open>The same adapter with an image of two by two pixels, and with a feature order.\<close>

definition demo_wide :: pytorch_model where
  "demo_wide =
     demo\<lparr>output_variables := [(''y'', demo_scalar), (''img'', demo_image\<lparr>shape := [2, 2]\<rparr>)]\<rparr>"

definition demo_ordered :: pytorch_model where
  "demo_ordered = demo\<lparr>feature_order := Some [''x1'', ''z'']\<rparr>"

definition demo_tensors :: "(string \<times> tensor) list" where
  "demo_tensors =
     [(''x1'', \<lparr>tdtype = Float64, requires_grad = True, tshape = [], tdata = [5]\<rparr>),
      (''x2'', \<lparr>tdtype = Float64, requires_grad = True, tshape = [], tdata = [2]\<rparr>)]"

section \<open>Exceptions and loops\<close>

lemma bind_eq_Inr: "bind m f = Inr y \<longleftrightarrow> (\<exists>x. m = Inr x \<and> f x = Inr y)"
  by (cases m) auto

lemma bind_eq_Inl: "bind m f = Inl e \<longleftrightarrow> m = Inl e \<or> (\<exists>x. m = Inr x \<and> f x = Inl e)"
  by (cases m) auto

lemma bind_assoc: "bind (bind m f) g = bind m (\<lambda>x. bind (f x) g)"
  by (cases m) auto

lemma for_each_Inr: "for_each f xs = Inr ys \<longleftrightarrow> list_all2 (\<lambda>x y. f x = Inr y) xs ys"
proof (induction xs arbitrary: ys)
  case Nil
  show ?case by auto
next
  case (Cons x xs)
  show ?case
    by (cases ys) (auto simp: bind_eq_Inr Cons.IH)
qed

lemma for_each_Inl: "for_each f xs = Inl e \<Longrightarrow> \<exists>x \<in> set xs. f x = Inl e"
  by (induction xs) (auto simp: bind_eq_Inl)

section \<open>The shape of a successful call\<close>

lemma prepare_inputs_Inr:
  "prepare_inputs self inp = Inr (d, self') \<longleftrightarrow>
     (\<exists>rs. list_all2 (\<lambda>kv r. resolve_input inp kv = Inr r) (input_variables self) rs
        \<and> list_all2 (\<lambda>kv kt. as_tensor kv = Inr kt) (map fst rs) d
        \<and> self' = self\<lparr>input_variables := map fst rs,
                         logged := logged self @ concat (map snd rs)\<rparr>)"
  by (auto simp: prepare_inputs_def bind_eq_Inr for_each_Inr)

lemma evaluate_factor:
  "evaluate self inp = bind (evaluate_until_parse self inp) (\<lambda>(p, s). prepare_outputs s p)"
  by (simp add: evaluate_def evaluate_until_parse_def bind_assoc split_def)

lemma until_parse_state:
  assumes "evaluate_until_parse self inp = Inr (p, s)"
  shows "\<exists>iv lg. s = self\<lparr>input_variables := iv, logged := lg\<rparr>"
  using assms
  by (auto simp: evaluate_until_parse_def bind_eq_Inr prepare_inputs_Inr)

lemma until_parse_output_variables:
  assumes "evaluate_until_parse self inp = Inr (p, s)"
  shows "output_variables s = output_variables self"
  using until_parse_state [OF assms] by auto

lemma prepare_outputs_Inr:
  "prepare_outputs s p = Inr (out, self') \<longleftrightarrow>
     (\<exists>reg. update_output_variables p (map snd (output_variables s)) (output_variables s) = Inr reg
        \<and> format_outputs (s\<lparr>output_variables := reg\<rparr>) p = Inr out
        \<and> self' = s\<lparr>output_variables := reg\<rparr>)"
  by (auto simp: prepare_outputs_def bind_eq_Inr)

lemma evaluate_Inr:
  "evaluate self inp = Inr (out, self') \<longleftrightarrow>
     (\<exists>p s. evaluate_until_parse self inp = Inr (p, s) \<and> prepare_outputs s p = Inr (out, self'))"
  by (auto simp: evaluate_factor bind_eq_Inr)

section \<open>The demonstration adapter, evaluated\<close>

lemmas demo_simps =
  evaluate_until_parse_def prepare_inputs_def demo_def demo_inputs_def demo_call_def
  resolve_input_def as_tensor_def arrange_inputs_def getitem_def stack_def
  transform_inputs_def demo_net_def transform_outputs_def parse_outputs_def index_def
  scalar_tensor_def demo_parsed_def demo_prepared_def demo_tensors_def

lemma demo_prepare_inputs: "prepare_inputs demo demo_call = Inr (demo_tensors, demo_prepared)"
  by (simp add: demo_simps)

lemma demo_until_parse:
  "evaluate_until_parse demo demo_call = Inr (demo_parsed, demo_prepared)"
  by (simp add: demo_simps)

lemma demo_until_parse_format:
  "evaluate_until_parse (demo\<lparr>output_format := f\<rparr>) demo_call
     = Inr (demo_parsed, demo_prepared\<lparr>output_format := f\<rparr>)"
  by (simp add: demo_simps)

lemma demo_until_parse_wide:
  "evaluate_until_parse demo_wide demo_call
     = Inr (demo_parsed,
            demo_prepared\<lparr>output_variables :=
              [(''y'', demo_scalar), (''img'', demo_image\<lparr>shape := [2, 2]\<rparr>)]\<rparr>)"
  by (simp add: demo_simps demo_wide_def)

lemma demo_prepared_outputs:
  "output_variables demo_prepared = [(''y'', demo_scalar), (''img'', demo_image)]"
  by (simp add: demo_prepared_def demo_def)

lemma demo_update:
  "update_output_variables demo_parsed [demo_scalar, demo_image]
     [(''y'', demo_scalar), (''img'', demo_image)] = Inr demo_outputs_after"
  by (simp add: update_output_variable_def set_attr_def update_bound_def getitem_def item_def
      reshape_def numpy_def numel_def demo_parsed_def demo_scalar_def demo_image_def
      scalar_tensor_def demo_outputs_after_def)

lemma demo_prepare_outputs:
  "prepare_outputs (demo_prepared\<lparr>output_format := f\<rparr>) demo_parsed =
     bind (format_outputs (demo_prepared\<lparr>output_format := f,
                                          output_variables := demo_outputs_after\<rparr>) demo_parsed)
       (\<lambda>out. Inr (out, demo_prepared\<lparr>output_format := f,
                                      output_variables := demo_outputs_after\<rparr>))"
  by (simp add: prepare_outputs_def demo_prepared_outputs demo_update
      del: update_output_variables.simps)

lemma demo_evaluate_format:
  "evaluate (demo\<lparr>output_format := f\<rparr>) demo_call =
     bind (format_outputs (demo_prepared\<lparr>output_format := f,
                                          output_variables := demo_outputs_after\<rparr>) demo_parsed)
       (\<lambda>out. Inr (out, demo_prepared\<lparr>output_format := f,
                                      output_variables := demo_outputs_after\<rparr>))"
  by (simp add: evaluate_factor demo_until_parse_format demo_prepare_outputs)

lemma demo_prepared_format:
  "demo_prepared\<lparr>output_format := Some [(''type'', ''variable'')]\<rparr> = demo_prepared"
  by (simp add: demo_prepared_def demo_def)

lemma demo_evaluate:
  "evaluate demo demo_call
     = Inr (VariableOut demo_outputs_after, demo_prepared\<lparr>output_variables := demo_outputs_after\<rparr>)"
proof -
  have "evaluate demo demo_call = prepare_outputs demo_prepared demo_parsed"
    by (simp add: evaluate_factor demo_until_parse)
  also have "\<dots> = prepare_outputs (demo_prepared\<lparr>output_format := Some [(''type'', ''variable'')]\<rparr>)
                     demo_parsed"
    by (simp only: demo_prepared_format)
  also have "\<dots> = Inr (VariableOut demo_outputs_after,
                        demo_prepared\<lparr>output_format := Some [(''type'', ''variable'')],
                                      output_variables := demo_outputs_after\<rparr>)"
    by (simp add: demo_prepare_outputs format_outputs_def)
  also have "demo_prepared\<lparr>output_format := Some [(''type'', ''variable'')],
                            output_variables := demo_outputs_after\<rparr>
             = demo_prepared\<lparr>output_variables := demo_outputs_after\<rparr>"
    by (simp add: demo_prepared_def demo_def)
  finally show ?thesis .
qed

section \<open>Input normalisation\<close>

lemma demo_prepare_inputs_mixed:
  "prepare_inputs demo demo_call_mixed = Inr (demo_tensors, demo_prepared\<lparr>logged := []\<rparr>)"
  by (simp add: prepare_inputs_def demo_def demo_inputs_def demo_call_mixed_def
      resolve_input_def as_tensor_def item_def demo_tensors_def demo_prepared_def)

text \<open>
  Claim C5, as the code has it. For every entry the caller supplies under a registered
  name, a call of input normalisation that returns has stored in the registered
  variable: the \<open>value\<close> field when the entry is an input-variable object; the number
  itself when the entry is a \<^verbatim>\<open>float\<close>; in every other case the result of
  \<^verbatim>\<open>.item()\<close> on the entry, that is the single element of a one-element tensor or
  array. An entry that is an \<^verbatim>\<open>int\<close> or \<^verbatim>\<open>None\<close> is not taken directly: it reaches
  the \<^verbatim>\<open>.item()\<close> branch, and input normalisation raises.
\<close>

theorem prepare_inputs_resolves_entry:
  assumes i: "i < length (input_variables self)"
    and kv: "input_variables self ! i = (k, var)"
    and e: "inp k = Some e"
  shows "(\<forall>d self'. prepare_inputs self inp = Inr (d, self') \<longrightarrow>
           (\<exists>var'. input_variables self' ! i = (k, var')
              \<and> (\<forall>v. e = Variable v \<longrightarrow> var_value var' = var_value v)
              \<and> (\<forall>r. e = Raw (PyFloat r) \<longrightarrow> var_value var' = PyFloat r)
              \<and> (\<forall>t. e = Raw (PyTensor t) \<longrightarrow>
                    (\<exists>x. tdata t = [x] \<and> var_value var' = PyFloat x))
              \<and> (\<forall>a. e = Raw (PyArray a) \<longrightarrow>
                    (\<exists>x. adata a = [x] \<and> var_value var' = PyFloat x))
              \<and> (\<forall>x. e = Raw x \<longrightarrow> (\<forall>r. x \<noteq> PyFloat r) \<longrightarrow>
                    py_item x = Inr (var_value var'))))
       \<and> ((\<exists>n. e = Raw (PyInt n)) \<or> e = Raw PyNone \<longrightarrow>
            (\<exists>err. prepare_inputs self inp = Inl err))"
proof -
  have stored: "\<exists>var'. input_variables self' ! i = (k, var') \<and> resolve e = Inr (var_value var')"
    if ok: "prepare_inputs self inp = Inr (d, self')" for d self'
  proof -
    from ok obtain rs where
      rs: "list_all2 (\<lambda>kv r. resolve_input inp kv = Inr r) (input_variables self) rs"
      and "self' = self\<lparr>input_variables := map fst rs,
                         logged := logged self @ concat (map snd rs)\<rparr>"
      unfolding prepare_inputs_Inr by blast
    then have s: "input_variables self' = map fst rs"
      by simp
    from rs i have len: "i < length rs"
      by (simp add: list_all2_lengthD)
    from rs i kv have "resolve_input inp (k, var) = Inr (rs ! i)"
      by (auto dest: list_all2_nthD)
    with e obtain x where x: "resolve e = Inr x"
      and "rs ! i = ((k, var\<lparr>var_value := x\<rparr>), [])"
      by (auto simp: resolve_input_def bind_eq_Inr)
    then have "fst (rs ! i) = (k, var\<lparr>var_value := x\<rparr>)"
      by simp
    with x len show ?thesis
      by (simp add: s)
  qed
  have branches:
    "(\<forall>v. e = Variable v \<longrightarrow> y = var_value v)
     \<and> (\<forall>r. e = Raw (PyFloat r) \<longrightarrow> y = PyFloat r)
     \<and> (\<forall>t. e = Raw (PyTensor t) \<longrightarrow> (\<exists>x. tdata t = [x] \<and> y = PyFloat x))
     \<and> (\<forall>a. e = Raw (PyArray a) \<longrightarrow> (\<exists>x. adata a = [x] \<and> y = PyFloat x))
     \<and> (\<forall>x. e = Raw x \<longrightarrow> (\<forall>r. x \<noteq> PyFloat r) \<longrightarrow> py_item x = Inr y)"
    if "resolve e = Inr y" for y
    using that
    by (cases e rule: resolve.cases)
       (auto simp: item_def bind_eq_Inr split: list.splits)
  have returns: "\<exists>var'. input_variables self' ! i = (k, var')
              \<and> (\<forall>v. e = Variable v \<longrightarrow> var_value var' = var_value v)
              \<and> (\<forall>r. e = Raw (PyFloat r) \<longrightarrow> var_value var' = PyFloat r)
              \<and> (\<forall>t. e = Raw (PyTensor t) \<longrightarrow>
                    (\<exists>x. tdata t = [x] \<and> var_value var' = PyFloat x))
              \<and> (\<forall>a. e = Raw (PyArray a) \<longrightarrow>
                    (\<exists>x. adata a = [x] \<and> var_value var' = PyFloat x))
              \<and> (\<forall>x. e = Raw x \<longrightarrow> (\<forall>r. x \<noteq> PyFloat r) \<longrightarrow>
                    py_item x = Inr (var_value var'))"
    if ok: "prepare_inputs self inp = Inr (d, self')" for d self'
  proof -
    from stored [OF ok] obtain var' :: input_variable where
      at: "input_variables self' ! i = (k, var')" and r: "resolve e = Inr (var_value var')"
      by (elim exE conjE)
    from at branches [OF r] show ?thesis
      by (intro exI [of _ var'] conjI) (elim conjE, assumption)+
  qed
  have raises: "\<exists>err. prepare_inputs self inp = Inl err"
    if bad: "(\<exists>n. e = Raw (PyInt n)) \<or> e = Raw PyNone"
  proof (cases "prepare_inputs self inp")
    case (Inl err)
    then show ?thesis by (rule exI)
  next
    case (Inr r)
    obtain d self' where "r = (d, self')" by (cases r)
    with Inr have "prepare_inputs self inp = Inr (d, self')"
      by simp
    from stored [OF this] obtain var' :: input_variable
      where r: "resolve e = Inr (var_value var')"
      by (elim exE conjE)
    from bad have "resolve e = Inl AttributeError"
      by (elim disjE exE) simp_all
    with r show ?thesis by simp
  qed
  show ?thesis
  proof (intro conjI allI impI)
    fix d self'
    assume "prepare_inputs self inp = Inr (d, self')"
    then show "\<exists>var'. input_variables self' ! i = (k, var')
              \<and> (\<forall>v. e = Variable v \<longrightarrow> var_value var' = var_value v)
              \<and> (\<forall>r. e = Raw (PyFloat r) \<longrightarrow> var_value var' = PyFloat r)
              \<and> (\<forall>t. e = Raw (PyTensor t) \<longrightarrow>
                    (\<exists>x. tdata t = [x] \<and> var_value var' = PyFloat x))
              \<and> (\<forall>a. e = Raw (PyArray a) \<longrightarrow>
                    (\<exists>x. adata a = [x] \<and> var_value var' = PyFloat x))
              \<and> (\<forall>x. e = Raw x \<longrightarrow> (\<forall>r. x \<noteq> PyFloat r) \<longrightarrow>
                    py_item x = Inr (var_value var'))"
      by (rule returns)
  next
    assume "(\<exists>n. e = Raw (PyInt n)) \<or> e = Raw PyNone"
    then show "\<exists>err. prepare_inputs self inp = Inl err"
      by (rule raises)
  qed
qed

theorem prepare_inputs_resolves_entry_witness:
  "0 < length (input_variables demo)
   \<and> input_variables demo ! 0
       = (''x1'', \<lparr>name = ''x1'', var_value = PyNone, var_default = PyFloat 1\<rparr>)
   \<and> demo_call_mixed ''x1''
       = Some (Raw (PyTensor \<lparr>tdtype = Float32, requires_grad = False, tshape = [1],
                              tdata = [5]\<rparr>))
   \<and> prepare_inputs demo demo_call_mixed = Inr (demo_tensors, demo_prepared\<lparr>logged := []\<rparr>)
   \<and> (\<exists>var'. input_variables (demo_prepared\<lparr>logged := []\<rparr>) ! 0 = (''x1'', var')
          \<and> var_value var' = PyFloat 5)
   \<and> (\<exists>var'. input_variables (demo_prepared\<lparr>logged := []\<rparr>) ! 1 = (''x2'', var')
          \<and> var_value var' = PyFloat 2)"
proof -
  have h1: "0 < length (input_variables demo)" and g1: "1 < length (input_variables demo)"
    by (simp_all add: demo_def demo_inputs_def)
  have h2: "input_variables demo ! 0
       = (''x1'', \<lparr>name = ''x1'', var_value = PyNone, var_default = PyFloat 1\<rparr>)"
    and g2: "input_variables demo ! 1
       = (''x2'', \<lparr>name = ''x2'', var_value = PyNone, var_default = PyFloat 2\<rparr>)"
    by (simp_all add: demo_def demo_inputs_def)
  have h3: "demo_call_mixed ''x1''
       = Some (Raw (PyTensor \<lparr>tdtype = Float32, requires_grad = False, tshape = [1],
                              tdata = [5]\<rparr>))"
    and g3: "demo_call_mixed ''x2''
       = Some (Variable \<lparr>name = ''x2'', var_value = PyFloat 2, var_default = PyFloat 0\<rparr>)"
    by (simp_all add: demo_call_mixed_def)
  note c5 = prepare_inputs_resolves_entry [where inp = demo_call_mixed, OF h1 h2 h3,
      THEN conjunct1, rule_format, OF demo_prepare_inputs_mixed]
  then obtain var' where
    at: "input_variables (demo_prepared\<lparr>logged := []\<rparr>) ! 0 = (''x1'', var')"
    and "\<forall>t. Raw (PyTensor \<lparr>tdtype = Float32, requires_grad = False, tshape = [1],
                                 tdata = [5]\<rparr>) = Raw (PyTensor t) \<longrightarrow>
               (\<exists>x. tdata t = [x] \<and> var_value var' = PyFloat x)"
    by (elim exE conjE)
  then obtain x where
    "input_variables (demo_prepared\<lparr>logged := []\<rparr>) ! 0 = (''x1'', var')"
    "tdata \<lparr>tdtype = Float32, requires_grad = False, tshape = [1], tdata = [5]\<rparr> = [x]"
    "var_value var' = PyFloat x"
    by auto
  then have first: "\<exists>var'. input_variables (demo_prepared\<lparr>logged := []\<rparr>) ! 0 = (''x1'', var')
          \<and> var_value var' = PyFloat 5"
    by auto
  note c5' = prepare_inputs_resolves_entry [where inp = demo_call_mixed, OF g1 g2 g3,
      THEN conjunct1, rule_format, OF demo_prepare_inputs_mixed]
  then obtain var'' where
    "input_variables (demo_prepared\<lparr>logged := []\<rparr>) ! 1 = (''x2'', var'')"
    "var_value var''
       = var_value \<lparr>name = ''x2'', var_value = PyFloat 2, var_default = PyFloat 0\<rparr>"
    by auto
  then have second: "\<exists>var'. input_variables (demo_prepared\<lparr>logged := []\<rparr>) ! 1 = (''x2'', var')
          \<and> var_value var' = PyFloat 2"
    by auto
  from h1 h2 h3 demo_prepare_inputs_mixed first second show ?thesis
    by blast
qed

text \<open>
  The claim as the specification words it fails for a plain numeric scalar that is an
  \<^verbatim>\<open>int\<close>: the entry 5 is not taken directly, input normalisation raises
  \<^verbatim>\<open>AttributeError\<close> and so does \<open>evaluate\<close>.
\<close>

theorem prepare_inputs_int_entry_raises:
  "demo_call_int ''x1'' = Some (Raw (PyInt 5))
   \<and> resolve (Raw (PyInt 5)) = Inl AttributeError
   \<and> prepare_inputs demo demo_call_int = Inl AttributeError
   \<and> evaluate demo demo_call_int = Inl AttributeError"
  by (simp add: demo_call_int_def prepare_inputs_def evaluate_def demo_def demo_inputs_def
      resolve_input_def)

text \<open>
  Claim C4. After the values are resolved, the dictionary handed on holds one tensor
  per registered input: a value that is already a tensor is passed through as it is
  (dtype and gradient flag untouched), every other value is turned into a
  double-precision tensor that tracks gradients.
\<close>

theorem prepare_inputs_coerces_to_double:
  assumes ok: "prepare_inputs self inp = Inr (d, self')"
    and i: "i < length (input_variables self')"
    and kv: "input_variables self' ! i = (k, var)"
  shows "length d = length (input_variables self') \<and>
         (\<exists>t. d ! i = (k, t) \<and>
            (is_tensor (var_value var) \<longrightarrow> var_value var = PyTensor t) \<and>
            (\<not> is_tensor (var_value var) \<longrightarrow>
               torch_tensor (var_value var) = Inr t \<and> tdtype t = Float64 \<and> requires_grad t))"
proof -
  from ok obtain rs where
    d: "list_all2 (\<lambda>kv kt. as_tensor kv = Inr kt) (map fst rs) d"
    and "self' = self\<lparr>input_variables := map fst rs,
                         logged := logged self @ concat (map snd rs)\<rparr>"
    unfolding prepare_inputs_Inr by blast
  then have s: "input_variables self' = map fst rs"
    by simp
  from d have len: "length d = length (input_variables self')"
    by (auto simp: s dest: list_all2_lengthD)
  from d i kv have a: "as_tensor (k, var) = Inr (d ! i)"
    unfolding s [symmetric] by (auto dest: list_all2_nthD)
  have "\<exists>t. d ! i = (k, t) \<and>
            (is_tensor (var_value var) \<longrightarrow> var_value var = PyTensor t) \<and>
            (\<not> is_tensor (var_value var) \<longrightarrow>
               torch_tensor (var_value var) = Inr t \<and> tdtype t = Float64 \<and> requires_grad t)"
    using a by (cases "var_value var") (auto simp: as_tensor_def)
  with len show ?thesis by simp
qed

theorem prepare_inputs_coerces_to_double_witness:
  "prepare_inputs demo demo_call = Inr (demo_tensors, demo_prepared)
   \<and> 1 < length (input_variables demo_prepared)
   \<and> input_variables demo_prepared ! 1
       = (''x2'', \<lparr>name = ''x2'', var_value = PyFloat 2, var_default = PyFloat 2\<rparr>)
   \<and> length demo_tensors = length (input_variables demo_prepared)
   \<and> (\<exists>t. demo_tensors ! 1 = (''x2'', t) \<and>
        (is_tensor (var_value \<lparr>name = ''x2'', var_value = PyFloat 2, var_default = PyFloat 2\<rparr>)
           \<longrightarrow> var_value \<lparr>name = ''x2'', var_value = PyFloat 2, var_default = PyFloat 2\<rparr>
                 = PyTensor t) \<and>
        (\<not> is_tensor (var_value \<lparr>name = ''x2'', var_value = PyFloat 2, var_default = PyFloat 2\<rparr>)
           \<longrightarrow> torch_tensor
                 (var_value \<lparr>name = ''x2'', var_value = PyFloat 2, var_default = PyFloat 2\<rparr>)
                 = Inr t \<and> tdtype t = Float64 \<and> requires_grad t))"
proof -
  have h2: "1 < length (input_variables demo_prepared)"
    by (simp add: demo_prepared_def)
  have h3: "input_variables demo_prepared ! 1
       = (''x2'', \<lparr>name = ''x2'', var_value = PyFloat 2, var_default = PyFloat 2\<rparr>)"
    by (simp add: demo_prepared_def)
  from prepare_inputs_coerces_to_double [OF demo_prepare_inputs h2 h3]
    demo_prepare_inputs h2 h3
  show ?thesis by blast
qed

section \<open>Feature arrangement\<close>

lemma for_each_getitem_missing:
  "n \<in> set ns \<Longrightarrow> map_of d n = None \<Longrightarrow>
     \<exists>m \<in> set ns. map_of d m = None \<and> for_each (getitem d) ns = Inl (KeyError m)"
proof (induction ns)
  case Nil
  then show ?case by simp
next
  case (Cons x xs)
  show ?case
  proof (cases "map_of d x")
    case None
    then show ?thesis by (auto simp: getitem_def)
  next
    case (Some t)
    with Cons.prems have "n \<in> set xs" by auto
    with Cons obtain m where
      m: "m \<in> set xs" "map_of d m = None" "for_each (getitem d) xs = Inl (KeyError m)"
      by auto
    from Some have "getitem d x = Inr t" by (simp add: getitem_def)
    with m show ?thesis by auto
  qed
qed

text \<open>
  Claim C6. When a name of the feature order (of the registry's insertion order when no
  feature order is configured) has no entry in the normalised input dictionary, feature
  arrangement raises a \<^verbatim>\<open>KeyError\<close> for such a name; it returns no vector, so no
  feature is dropped silently.
\<close>

theorem arrange_inputs_missing_feature_raises:
  assumes "n \<in> set (case feature_order self of Some order \<Rightarrow> order
                     | None \<Rightarrow> map fst (input_variables self))"
    and "map_of d n = None"
  shows "\<exists>m. m \<in> set (case feature_order self of Some order \<Rightarrow> order
                       | None \<Rightarrow> map fst (input_variables self))
           \<and> map_of d m = None \<and> arrange_inputs self d = Inl (KeyError m)"
proof (cases "feature_order self")
  case None
  with assms for_each_getitem_missing [of n "map fst (input_variables self)" d]
  show ?thesis by (auto simp: arrange_inputs_def)
next
  case (Some order)
  with assms for_each_getitem_missing [of n order d]
  show ?thesis by (auto simp: arrange_inputs_def)
qed

theorem arrange_inputs_missing_feature_raises_witness:
  "''z'' \<in> set (case feature_order demo_ordered of Some order \<Rightarrow> order
                 | None \<Rightarrow> map fst (input_variables demo_ordered))
   \<and> map_of demo_tensors ''z'' = None
   \<and> (\<exists>m. m \<in> set (case feature_order demo_ordered of Some order \<Rightarrow> order
                      | None \<Rightarrow> map fst (input_variables demo_ordered))
           \<and> map_of demo_tensors m = None
           \<and> arrange_inputs demo_ordered demo_tensors = Inl (KeyError m))"
proof -
  have h1: "''z'' \<in> set (case feature_order demo_ordered of Some order \<Rightarrow> order
                 | None \<Rightarrow> map fst (input_variables demo_ordered))"
    by (simp add: demo_ordered_def)
  have h2: "map_of demo_tensors ''z'' = None"
    by (simp add: demo_tensors_def)
  from arrange_inputs_missing_feature_raises [OF h1 h2] h1 h2
  show ?thesis by blast
qed

section \<open>The inverse transformer chain\<close>

lemma foldl_bind_Inl: "foldl (\<lambda>acc t. bind acc (g t)) (Inl e) ts = Inl e"
  by (induction ts) auto

lemma transform_outputs_loop_foldl:
  "transform_outputs_loop ts x = foldl (\<lambda>acc t. bind acc (untransform t)) (Inr x) ts"
proof (induction ts arbitrary: x)
  case Nil
  show ?case by simp
next
  case (Cons t ts)
  show ?case
    by (cases "untransform t x") (simp_all add: Cons.IH foldl_bind_Inl)
qed

text \<open>
  Claim C3. The inverse-transform stage runs through the output chain from its first
  transformer to its last, applying \<open>untransform\<close> of each to the result so far: the
  last configured transformer is undone last. The order is the configured one and not
  its reverse: undoing a shift and then a doubling sends 3 to 8, the reversed chain
  sends it to 7.
\<close>

theorem transform_outputs_forward_order:
  "transform_outputs self x
     = foldl (\<lambda>acc t. bind acc (untransform t)) (Inr x) (output_transformers self)
   \<and> transform_outputs (self\<lparr>output_transformers := ts @ [t]\<rparr>) x
       = bind (transform_outputs (self\<lparr>output_transformers := ts\<rparr>) x) (untransform t)
   \<and> transform_outputs (demo\<lparr>output_transformers := [shift, halve]\<rparr>) (scalar_tensor 3)
       = Inr (scalar_tensor 8)
   \<and> transform_outputs (demo\<lparr>output_transformers := rev [shift, halve]\<rparr>) (scalar_tensor 3)
       = Inr (scalar_tensor 7)"
  by (simp add: transform_outputs_def transform_outputs_loop_foldl shift_def halve_def
      on_data_def scalar_tensor_def)

section \<open>The return value\<close>

text \<open>
  Claim C2. A call of \<open>evaluate\<close> that returns has dispatched on the \<open>type\<close> entry of the
  output format: \<open>tensor\<close> returns the parsed dictionary of tensors, \<open>variable\<close> returns
  the updated registry of output variables, anything else returns the dictionary from
  each registry key to the current value of its variable.
\<close>

theorem evaluate_output_format_dispatch:
  assumes "evaluate self inp = Inr (out, self')"
  shows "\<exists>p s fmt. evaluate_until_parse self inp = Inr (p, s) \<and> output_format self = Some fmt \<and>
           out = (if map_of fmt ''type'' = Some ''tensor'' then TensorOut p
                  else if map_of fmt ''type'' = Some ''variable''
                  then VariableOut (output_variables self')
                  else ValueOut (map (\<lambda>(key, var). (key, var_value var)) (output_variables self')))"
proof -
  from assms obtain p s where
    up: "evaluate_until_parse self inp = Inr (p, s)" and po: "prepare_outputs s p = Inr (out, self')"
    by (auto simp: evaluate_Inr)
  from up obtain iv lg where s: "s = self\<lparr>input_variables := iv, logged := lg\<rparr>"
    by (blast dest: until_parse_state)
  from po obtain reg where
    f: "format_outputs (s\<lparr>output_variables := reg\<rparr>) p = Inr out"
    and s': "self' = s\<lparr>output_variables := reg\<rparr>"
    by (auto simp: prepare_outputs_Inr)
  from f obtain fmt where fmt: "output_format self = Some fmt"
    by (auto simp: format_outputs_def s split: option.splits)
  with f s' have "out = (if map_of fmt ''type'' = Some ''tensor'' then TensorOut p
                  else if map_of fmt ''type'' = Some ''variable''
                  then VariableOut (output_variables self')
                  else ValueOut (map (\<lambda>(key, var). (key, var_value var)) (output_variables self')))"
    by (auto simp: format_outputs_def s split: if_splits)
  with up fmt show ?thesis by blast
qed

theorem evaluate_output_format_dispatch_witness:
  "evaluate demo demo_call
     = Inr (VariableOut demo_outputs_after, demo_prepared\<lparr>output_variables := demo_outputs_after\<rparr>)
   \<and> (\<exists>p s fmt. evaluate_until_parse demo demo_call = Inr (p, s)
         \<and> output_format demo = Some fmt \<and>
         VariableOut demo_outputs_after =
           (if map_of fmt ''type'' = Some ''tensor'' then TensorOut p
            else if map_of fmt ''type'' = Some ''variable''
            then VariableOut
                   (output_variables (demo_prepared\<lparr>output_variables := demo_outputs_after\<rparr>))
            else ValueOut (map (\<lambda>(key, var). (key, var_value var))
                   (output_variables (demo_prepared\<lparr>output_variables := demo_outputs_after\<rparr>)))))"
  using evaluate_output_format_dispatch [OF demo_evaluate] demo_evaluate
  by blast

text \<open>
  Claim C10. When the output format is a dictionary without the key \<open>type\<close>, the closing
  dispatch does not raise: \<open>evaluate\<close> raises only what an earlier stage or the update of
  the output variables raises, and a call that returns yields the dictionary from each
  registry key to the current value of its variable.
\<close>

theorem output_format_without_type_returns_values:
  assumes fmt: "output_format self = Some fmt" and no_type: "map_of fmt ''type'' = None"
  shows "format_outputs self p
           = Inr (ValueOut (map (\<lambda>(key, var). (key, var_value var)) (output_variables self)))
       \<and> (\<forall>e. evaluate self inp = Inl e \<longleftrightarrow>
              evaluate_until_parse self inp = Inl e \<or>
              (\<exists>p s. evaluate_until_parse self inp = Inr (p, s) \<and>
                 update_output_variables p (map snd (output_variables s)) (output_variables s)
                   = Inl e))
       \<and> (\<forall>out self'. evaluate self inp = Inr (out, self') \<longrightarrow>
              out = ValueOut (map (\<lambda>(key, var). (key, var_value var)) (output_variables self')))"
proof -
  have f: "format_outputs s p
           = Inr (ValueOut (map (\<lambda>(key, var). (key, var_value var)) (output_variables s)))"
    if "output_format s = Some fmt" for s p
    using that no_type by (simp add: format_outputs_def)
  have s: "output_format (s\<lparr>output_variables := reg\<rparr>) = Some fmt"
    if "evaluate_until_parse self inp = Inr (p, s)" for p s reg
    using until_parse_state [OF that] fmt by auto
  have po: "prepare_outputs s p =
      bind (update_output_variables p (map snd (output_variables s)) (output_variables s))
        (\<lambda>reg. Inr (ValueOut (map (\<lambda>(key, var). (key, var_value var)) reg),
                     s\<lparr>output_variables := reg\<rparr>))"
    if "evaluate_until_parse self inp = Inr (p, s)" for p s
    using f [OF s [OF that]] by (simp add: prepare_outputs_def)
  have "evaluate self inp = Inl e \<longleftrightarrow>
              evaluate_until_parse self inp = Inl e \<or>
              (\<exists>p s. evaluate_until_parse self inp = Inr (p, s) \<and>
                 update_output_variables p (map snd (output_variables s)) (output_variables s)
                   = Inl e)" for e
    by (cases "evaluate_until_parse self inp") (auto simp: evaluate_factor po bind_eq_Inl)
  moreover have "out = ValueOut (map (\<lambda>(key, var). (key, var_value var)) (output_variables self'))"
    if "evaluate self inp = Inr (out, self')" for out self'
    using that by (auto simp: evaluate_Inr po bind_eq_Inr)
  ultimately show ?thesis
    using f [OF fmt] by blast
qed

theorem output_format_without_type_returns_values_witness:
  "output_format (demo\<lparr>output_format := Some []\<rparr>) = Some []
   \<and> map_of ([] :: (string \<times> string) list) ''type'' = None
   \<and> evaluate (demo\<lparr>output_format := Some []\<rparr>) demo_call
       = Inr (ValueOut (map (\<lambda>(key, var). (key, var_value var)) demo_outputs_after),
              demo_prepared\<lparr>output_format := Some [], output_variables := demo_outputs_after\<rparr>)"
proof -
  have h1: "output_format (demo\<lparr>output_format := Some []\<rparr>) = Some []"
    by simp
  have h2: "map_of ([] :: (string \<times> string) list) ''type'' = None"
    by simp
  obtain out where
    ev: "evaluate (demo\<lparr>output_format := Some []\<rparr>) demo_call
           = Inr (out, demo_prepared\<lparr>output_format := Some [],
                                     output_variables := demo_outputs_after\<rparr>)"
    by (simp add: demo_evaluate_format format_outputs_def)
  from output_format_without_type_returns_values
         [OF h1 h2, where inp = demo_call and p = demo_parsed] ev
  have "out = ValueOut (map (\<lambda>(key, var). (key, var_value var)) demo_outputs_after)"
    by simp
  with ev h1 h2 show ?thesis by simp
qed

section \<open>Reshaping an image output\<close>

lemma update_output_variable_mismatch:
  assumes "variable_type v = ''image''" and "map_of p (name v) = Some t"
    and "numel t \<noteq> prod_list (shape v)"
  shows "update_output_variable p v reg = Inl (RuntimeError ''shape is invalid for input size'')"
  using assms by (simp add: update_output_variable_def getitem_def reshape_def)

lemma update_output_variables_raises:
  assumes "v \<in> set vs" and "\<And>reg. \<exists>e. update_output_variable p v reg = Inl e"
  shows "\<exists>e. update_output_variables p vs reg = Inl e"
  using assms(1)
proof (induction vs arbitrary: reg)
  case Nil
  then show ?case by simp
next
  case (Cons u us)
  show ?case
  proof (cases "update_output_variable p u reg")
    case (Inl e)
    then show ?thesis by simp
  next
    case (Inr reg')
    with assms(2) [of reg] have "u \<noteq> v" by auto
    with Cons.prems have "v \<in> set us" by auto
    then have "\<exists>e. update_output_variables p us reg' = Inl e" by (rule Cons.IH)
    with Inr show ?thesis by simp
  qed
qed

text \<open>
  Claim C9. When the registry holds an image variable whose parsed slot has an element
  count different from the product of the configured shape, the round of the update
  loop for that variable raises the error of \<^verbatim>\<open>reshape\<close> whatever the registry holds,
  storing nothing; \<open>evaluate\<close> then returns no output, and what it raises is what
  \<^verbatim>\<open>_prepare_outputs\<close> raised, unchanged.
\<close>

theorem image_shape_mismatch_raises:
  assumes parse: "evaluate_until_parse self inp = Inr (p, s)"
    and v: "(k, v) \<in> set (output_variables self)"
    and image: "variable_type v = ''image''"
    and slot: "map_of p (name v) = Some t"
    and mismatch: "numel t \<noteq> prod_list (shape v)"
  shows "(\<forall>reg. update_output_variable p v reg
            = Inl (RuntimeError ''shape is invalid for input size''))
       \<and> (\<exists>e. prepare_outputs s p = Inl e \<and> evaluate self inp = Inl e)"
proof -
  have step: "update_output_variable p v reg
            = Inl (RuntimeError ''shape is invalid for input size'')" for reg
    using image slot mismatch by (rule update_output_variable_mismatch)
  from v have "v \<in> set (map snd (output_variables s))"
    by (force simp: until_parse_output_variables [OF parse])
  then obtain e where
    "update_output_variables p (map snd (output_variables s)) (output_variables s) = Inl e"
    using update_output_variables_raises [of v _ p] step by blast
  then have "prepare_outputs s p = Inl e"
    by (simp add: prepare_outputs_def)
  with parse step show ?thesis
    by (simp add: evaluate_factor)
qed

theorem image_shape_mismatch_raises_witness:
  "evaluate_until_parse demo_wide demo_call
     = Inr (demo_parsed,
            demo_prepared\<lparr>output_variables :=
              [(''y'', demo_scalar), (''img'', demo_image\<lparr>shape := [2, 2]\<rparr>)]\<rparr>)
   \<and> (''img'', demo_image\<lparr>shape := [2, 2]\<rparr>) \<in> set (output_variables demo_wide)
   \<and> variable_type (demo_image\<lparr>shape := [2, 2]\<rparr>) = ''image''
   \<and> map_of demo_parsed (name (demo_image\<lparr>shape := [2, 2]\<rparr>)) = Some (scalar_tensor 2)
   \<and> numel (scalar_tensor 2) \<noteq> prod_list (shape (demo_image\<lparr>shape := [2, 2]\<rparr>))
   \<and> evaluate demo_wide demo_call = Inl (RuntimeError ''shape is invalid for input size'')"
proof -
  have h2: "(''img'', demo_image\<lparr>shape := [2, 2]\<rparr>) \<in> set (output_variables demo_wide)"
    by (simp add: demo_wide_def)
  have h3: "variable_type (demo_image\<lparr>shape := [2, 2]\<rparr>) = ''image''"
    by (simp add: demo_image_def)
  have h4: "map_of demo_parsed (name (demo_image\<lparr>shape := [2, 2]\<rparr>)) = Some (scalar_tensor 2)"
    by (simp add: demo_image_def demo_parsed_def)
  have h5: "numel (scalar_tensor 2) \<noteq> prod_list (shape (demo_image\<lparr>shape := [2, 2]\<rparr>))"
    by (simp add: numel_def scalar_tensor_def)
  have first: "update_output_variable demo_parsed demo_scalar
                 [(''y'', demo_scalar), (''img'', demo_image\<lparr>shape := [2, 2]\<rparr>)]
               = Inr [(''y'', demo_scalar\<lparr>var_value := PyFloat 5\<rparr>),
                      (''img'', demo_image\<lparr>shape := [2, 2]\<rparr>)]"
    by (simp add: update_output_variable_def set_attr_def getitem_def item_def demo_parsed_def
        demo_scalar_def scalar_tensor_def)
  from image_shape_mismatch_raises [OF demo_until_parse_wide h2 h3 h4 h5]
  have "prepare_outputs
          (demo_prepared\<lparr>output_variables :=
             [(''y'', demo_scalar), (''img'', demo_image\<lparr>shape := [2, 2]\<rparr>)]\<rparr>) demo_parsed
        = Inl (RuntimeError ''shape is invalid for input size'')"
    by (simp add: prepare_outputs_def first)
  then have "evaluate demo_wide demo_call = Inl (RuntimeError ''shape is invalid for input size'')"
    by (simp add: evaluate_factor demo_until_parse_wide)
  with demo_until_parse_wide h2 h3 h4 h5 show ?thesis by blast
qed

section \<open>The update of the output variables\<close>

lemma update_bound_update:
  assumes "assign (get w) w = w"
  shows "update_bound ref assign p n (AList.update n w reg)
           = bind (bound_value p (ref w) (get w)) (\<lambda>x. Inr (AList.update n (assign x w) reg))"
proof (cases "ref w")
  case None
  with assms show ?thesis
    by (simp add: update_bound_def bound_value_def getitem_def AList.update_conv')
next
  case (Some r)
  with assms show ?thesis
    by (simp add: update_bound_def bound_value_def getitem_def AList.update_conv'
        set_attr_def bind_assoc)
qed

lemmas update_bound_x_min =
  update_bound_update [where assign = "\<lambda>x w. w\<lparr>x_min := x\<rparr>" and get = x_min
    and ref = x_min_variable, simplified]
lemmas update_bound_x_max =
  update_bound_update [where assign = "\<lambda>x w. w\<lparr>x_max := x\<rparr>" and get = x_max
    and ref = x_max_variable, simplified]
lemmas update_bound_y_min =
  update_bound_update [where assign = "\<lambda>x w. w\<lparr>y_min := x\<rparr>" and get = y_min
    and ref = y_min_variable, simplified]
lemmas update_bound_y_max =
  update_bound_update [where assign = "\<lambda>x w. w\<lparr>y_max := x\<rparr>" and get = y_max
    and ref = y_max_variable, simplified]

lemma step_scalar:
  assumes "variable_type u = ''scalar''" and "map_of reg (name u) = Some w"
  shows "update_output_variable p u reg =
     bind (getitem p (name u)) (\<lambda>t.
     bind (item t) (\<lambda>x.
     Inr (AList.update (name u) (w\<lparr>var_value := PyFloat x\<rparr>) reg)))"
  using assms by (simp add: update_output_variable_def set_attr_def getitem_def)

lemma step_image:
  assumes "variable_type u = ''image''" and "map_of reg (name u) = Some w"
  shows "update_output_variable p u reg =
     bind (getitem p (name u)) (\<lambda>t.
     bind (reshape t (shape u)) (\<lambda>t'.
     bind (numpy t') (\<lambda>a.
     bind (bound_value p (x_min_variable w) (x_min w)) (\<lambda>b1.
     bind (bound_value p (x_max_variable w) (x_max w)) (\<lambda>b2.
     bind (bound_value p (y_min_variable w) (y_min w)) (\<lambda>b3.
     bind (bound_value p (y_max_variable w) (y_max w)) (\<lambda>b4.
     Inr (AList.update (name u)
            (w\<lparr>var_value := PyArray a, x_min := b1, x_max := b2, y_min := b3, y_max := b4\<rparr>)
            reg))))))))"
  using assms
  by (simp add: update_output_variable_def set_attr_def [of _ _ reg] getitem_def [of reg]
      update_bound_x_min update_bound_x_max update_bound_y_min update_bound_y_max bind_assoc)

lemma step_other:
  assumes "variable_type u \<noteq> ''scalar''" and "variable_type u \<noteq> ''image''"
  shows "update_output_variable p u reg = Inr reg"
  using assms by (simp add: update_output_variable_def)

lemma step_unregistered:
  assumes "map_of reg (name u) = None" and "update_output_variable p u reg = Inr reg'"
  shows "reg' = reg"
  using assms
  by (auto simp: update_output_variable_def set_attr_def getitem_def [of reg] bind_eq_Inr
      split: if_splits)

lemma step_Inr:
  assumes "update_output_variable p u reg = Inr reg'"
  shows "reg' = reg \<or>
         (\<exists>w w'. map_of reg (name u) = Some w \<and> reg' = AList.update (name u) w' reg
            \<and> name w' = name w \<and> variable_type w' = variable_type w)"
proof (cases "map_of reg (name u)")
  case None
  with assms show ?thesis by (simp add: step_unregistered)
next
  case (Some w)
  consider "variable_type u = ''scalar''" | "variable_type u = ''image''"
    | "variable_type u \<noteq> ''scalar''" "variable_type u \<noteq> ''image''"
    by blast
  then show ?thesis
  proof cases
    case 1
    with assms Some show ?thesis
      by (auto simp: step_scalar bind_eq_Inr)
  next
    case 2
    with assms Some show ?thesis
      by (auto simp: step_image bind_eq_Inr)
  next
    case 3
    with assms show ?thesis by (simp add: step_other)
  qed
qed

lemma step_lookup:
  assumes "update_output_variable p u reg = Inr reg'" and "k \<noteq> name u"
  shows "map_of reg' k = map_of reg k"
  using step_Inr [OF assms(1)] assms(2) by (auto simp: AList.update_conv')

lemma update_keeps_types:
  "map_of reg n = Some w \<Longrightarrow> variable_type w' = variable_type w \<Longrightarrow>
     map (\<lambda>(k, w). (k, variable_type w)) (AList.update n w' reg)
       = map (\<lambda>(k, w). (k, variable_type w)) reg"
  by (induction reg) (auto split: if_splits)

lemma step_static:
  assumes "update_output_variable p u reg = Inr reg'"
  shows "map (\<lambda>(k, w). (k, variable_type w)) reg' = map (\<lambda>(k, w). (k, variable_type w)) reg"
  using step_Inr [OF assms]
  by (elim disjE exE conjE) (simp_all add: update_keeps_types)

lemma loop_lookup:
  "update_output_variables p us reg = Inr reg' \<Longrightarrow> k \<notin> name ` set us \<Longrightarrow>
     map_of reg' k = map_of reg k"
proof (induction us arbitrary: reg)
  case Nil
  then show ?case by simp
next
  case (Cons u us)
  from Cons.prems obtain r where
    r: "update_output_variable p u reg = Inr r" "update_output_variables p us r = Inr reg'"
    by (auto simp: bind_eq_Inr)
  with Cons show ?case by (simp add: step_lookup)
qed

lemma loop_static:
  "update_output_variables p us reg = Inr reg' \<Longrightarrow>
     map (\<lambda>(k, w). (k, variable_type w)) reg' = map (\<lambda>(k, w). (k, variable_type w)) reg"
proof (induction us arbitrary: reg)
  case Nil
  then show ?case by simp
next
  case (Cons u us)
  from Cons.prems obtain r where
    r: "update_output_variable p u reg = Inr r" "update_output_variables p us r = Inr reg'"
    by (auto simp: bind_eq_Inr)
  with Cons.IH [of r] show ?case by (simp add: step_static)
qed

lemma loop_append:
  "update_output_variables p (us @ vs) reg
     = bind (update_output_variables p us reg) (update_output_variables p vs)"
proof (induction us arbitrary: reg)
  case Nil
  show ?case by simp
next
  case (Cons u us)
  show ?case
    by (cases "update_output_variable p u reg") (simp_all add: Cons.IH)
qed

lemma names_keys:
  "\<forall>(key, var) \<in> set ys. name var = key \<Longrightarrow> map name (map snd ys) = map fst ys"
  by (induction ys) auto

text \<open>With every record filed under its own name and no name filed twice, the record of
  a name is changed by the round of its own variable only.\<close>

lemma loop_final:
  assumes keys: "distinct (map fst reg0)"
    and names: "\<forall>(key, var) \<in> set reg0. name var = key"
    and v: "(k, v) \<in> set reg0"
    and loop: "update_output_variables p (map snd reg0) reg0 = Inr regF"
  shows "\<exists>r1 r2. map_of r1 k = Some v \<and> update_output_variable p v r1 = Inr r2
           \<and> map_of regF k = map_of r2 k"
proof -
  from v obtain ys zs where split: "reg0 = ys @ (k, v) # zs"
    by (auto dest: split_list)
  from keys have k: "k \<notin> fst ` set ys" "k \<notin> fst ` set zs"
    by (auto simp: split)
  from names have ny: "\<forall>(key, var) \<in> set ys. name var = key"
    and nz: "\<forall>(key, var) \<in> set zs. name var = key"
    by (simp_all add: split)
  have n: "name ` set (map snd ys) = fst ` set ys" "name ` set (map snd zs) = fst ` set zs"
    using names_keys [OF ny] names_keys [OF nz] by (metis list.set_map)+
  have "map snd reg0 = map snd ys @ (v # map snd zs)"
    by (simp add: split)
  with loop have "bind (update_output_variables p (map snd ys) reg0)
                    (update_output_variables p (v # map snd zs)) = Inr regF"
    by (simp only: loop_append)
  then obtain r1 r2 where
    r1: "update_output_variables p (map snd ys) reg0 = Inr r1"
    and r2: "update_output_variable p v r1 = Inr r2"
    and rF: "update_output_variables p (map snd zs) r2 = Inr regF"
    by (auto simp: bind_eq_Inr)
  from keys v have "map_of reg0 k = Some v"
    by simp
  with loop_lookup [OF r1, of k] k n have "map_of r1 k = Some v"
    by simp
  moreover from loop_lookup [OF rF, of k] k n have "map_of regF k = map_of r2 k"
    by simp
  ultimately show ?thesis using r2 by blast
qed

lemma scalar_final:
  assumes keys: "distinct (map fst reg0)"
    and names: "\<forall>(key, var) \<in> set reg0. name var = key"
    and v: "(k, v) \<in> set reg0" and scalar: "variable_type v = ''scalar''"
    and loop: "update_output_variables p (map snd reg0) reg0 = Inr regF"
  shows "\<exists>t x. map_of p k = Some t \<and> item t = Inr x
           \<and> map_of regF k = Some (v\<lparr>var_value := PyFloat x\<rparr>)"
proof -
  from names v have nk: "name v = k" by auto
  from loop_final [OF keys names v loop] obtain r1 r2 where
    r1: "map_of r1 k = Some v" and r2: "update_output_variable p v r1 = Inr r2"
    and rF: "map_of regF k = map_of r2 k"
    by blast
  from r2 r1 scalar nk obtain t x where
    "getitem p k = Inr t" "item t = Inr x"
    "r2 = AList.update k (v\<lparr>var_value := PyFloat x\<rparr>) r1"
    by (auto simp: step_scalar bind_eq_Inr)
  with rF show ?thesis
    by (auto simp: getitem_def AList.update_conv' split: option.splits)
qed

lemma bound_value_Inr:
  assumes "bound_value p ref old = Inr b"
  shows "(\<forall>r. ref = Some r \<longrightarrow> r \<noteq> [] \<longrightarrow> (\<exists>t. map_of p r = Some t \<and> item t = Inr b))
       \<and> (ref = None \<or> ref = Some [] \<longrightarrow> b = old)"
  using assms
  by (auto simp: bound_value_def getitem_def bind_eq_Inr split: option.splits if_splits)

lemma image_final:
  assumes keys: "distinct (map fst reg0)"
    and names: "\<forall>(key, var) \<in> set reg0. name var = key"
    and v: "(k, v) \<in> set reg0" and image: "variable_type v = ''image''"
    and loop: "update_output_variables p (map snd reg0) reg0 = Inr regF"
  shows "\<exists>v'. map_of regF k = Some v'
           \<and> bound_value p (x_min_variable v) (x_min v) = Inr (x_min v')
           \<and> bound_value p (x_max_variable v) (x_max v) = Inr (x_max v')
           \<and> bound_value p (y_min_variable v) (y_min v) = Inr (y_min v')
           \<and> bound_value p (y_max_variable v) (y_max v) = Inr (y_max v')"
proof -
  from names v have nk: "name v = k" by auto
  from loop_final [OF keys names v loop] obtain r1 r2 where
    r1: "map_of r1 k = Some v" and r2: "update_output_variable p v r1 = Inr r2"
    and rF: "map_of regF k = map_of r2 k"
    by blast
  from r2 r1 image nk obtain a b1 b2 b3 b4 where
    b: "bound_value p (x_min_variable v) (x_min v) = Inr b1"
       "bound_value p (x_max_variable v) (x_max v) = Inr b2"
       "bound_value p (y_min_variable v) (y_min v) = Inr b3"
       "bound_value p (y_max_variable v) (y_max v) = Inr b4"
    and "r2 = AList.update k
            (v\<lparr>var_value := PyArray a, x_min := b1, x_max := b2, y_min := b3, y_max := b4\<rparr>) r1"
    by (auto simp: step_image bind_eq_Inr)
  with rF have "map_of regF k
      = Some (v\<lparr>var_value := PyArray a, x_min := b1, x_max := b2, y_min := b3, y_max := b4\<rparr>)"
    by (simp add: AList.update_conv')
  with b show ?thesis by simp
qed

section \<open>Values and bounds after a call\<close>

lemma scalar_entries:
  assumes keys: "distinct (map fst reg0)"
    and names: "\<forall>(key, var) \<in> set reg0. name var = key"
    and loop: "update_output_variables p (map snd reg0) reg0 = Inr regF"
    and v': "(k, v') \<in> set regF" and scalar: "variable_type v' = ''scalar''"
  shows "\<exists>t x. map_of p k = Some t \<and> item t = Inr x \<and> var_value v' = PyFloat x"
proof -
  let ?g = "\<lambda>(k, w :: output_variable). (k, variable_type w)"
  have g: "map ?g regF = map ?g reg0"
    using loop by (rule loop_static)
  then have "map fst (map ?g regF) = map fst (map ?g reg0)"
    by simp
  then have fst: "map fst regF = map fst reg0"
    by (simp add: split_def comp_def)
  from v' scalar have "(k, ''scalar'') \<in> set (map ?g regF)"
    by force
  then have "(k, ''scalar'') \<in> set (map ?g reg0)"
    by (simp only: g)
  then obtain v0 where v0: "(k, v0) \<in> set reg0" "variable_type v0 = ''scalar''"
    by auto
  from scalar_final [OF keys names v0 loop] obtain t x where
    tx: "map_of p k = Some t" "item t = Inr x"
    and "map_of regF k = Some (v0\<lparr>var_value := PyFloat x\<rparr>)"
    by blast
  moreover from keys v' have "map_of regF k = Some v'"
    by (simp add: fst [symmetric])
  ultimately have "var_value v' = PyFloat x"
    by simp
  with tx show ?thesis by blast
qed

lemma prepare_inputs_format:
  "prepare_inputs (self\<lparr>output_format := f\<rparr>) inp
     = bind (prepare_inputs self inp) (\<lambda>(d, s). Inr (d, s\<lparr>output_format := f\<rparr>))"
  by (cases self) (simp add: prepare_inputs_def bind_assoc)

lemma until_parse_format:
  "evaluate_until_parse (self\<lparr>output_format := f\<rparr>) inp
     = bind (evaluate_until_parse self inp) (\<lambda>(p, s). Inr (p, s\<lparr>output_format := f\<rparr>))"
  by (cases "prepare_inputs self inp")
     (auto simp: evaluate_until_parse_def prepare_inputs_format bind_assoc
        arrange_inputs_def transform_inputs_def transform_outputs_def parse_outputs_def
      cong: option.case_cong)

text \<open>
  Claim C8. With registry keys that are distinct and equal to the names of their
  variables: when the call in the \<open>tensor\<close> format returns, the same call in the
  \<open>variable\<close> format returns too, leaves the same adapter behind, and the value stored
  in every scalar variable it returns is the scalar of that name's entry in the
  dictionary of the \<open>tensor\<close> format.
\<close>

theorem variable_and_tensor_formats_agree:
  assumes t: "map_of ft ''type'' = Some ''tensor''"
    and vf: "map_of fv ''type'' = Some ''variable''"
    and keys: "distinct (map fst (output_variables self))"
    and names: "\<forall>(key, var) \<in> set (output_variables self). name var = key"
    and ok: "evaluate (self\<lparr>output_format := Some ft\<rparr>) inp = Inr (out, self')"
  shows "\<exists>p reg. out = TensorOut p
           \<and> evaluate (self\<lparr>output_format := Some fv\<rparr>) inp
               = Inr (VariableOut reg, self'\<lparr>output_format := Some fv\<rparr>)
           \<and> (\<forall>(k, v) \<in> set reg. variable_type v = ''scalar'' \<longrightarrow>
                 (\<exists>t x. map_of p k = Some t \<and> item t = Inr x \<and> var_value v = PyFloat x))"
proof -
  from ok obtain p s1 where
    up1: "evaluate_until_parse (self\<lparr>output_format := Some ft\<rparr>) inp = Inr (p, s1)"
    and po: "prepare_outputs s1 p = Inr (out, self')"
    by (auto simp: evaluate_Inr)
  from up1 obtain s where
    up: "evaluate_until_parse self inp = Inr (p, s)" and s1: "s1 = s\<lparr>output_format := Some ft\<rparr>"
    by (auto simp: until_parse_format bind_eq_Inr)
  have ov: "output_variables s = output_variables self"
    using up by (rule until_parse_output_variables)
  from po obtain reg where
    loop: "update_output_variables p (map snd (output_variables self)) (output_variables self)
             = Inr reg"
    and f: "format_outputs (s1\<lparr>output_variables := reg\<rparr>) p = Inr out"
    and s': "self' = s1\<lparr>output_variables := reg\<rparr>"
    by (auto simp: prepare_outputs_Inr s1 ov)
  from f t have out: "out = TensorOut p"
    by (simp add: format_outputs_def s1)
  have "evaluate (self\<lparr>output_format := Some fv\<rparr>) inp
          = prepare_outputs (s\<lparr>output_format := Some fv\<rparr>) p"
    by (simp add: evaluate_factor until_parse_format up)
  also have "\<dots> = Inr (VariableOut reg, s\<lparr>output_format := Some fv, output_variables := reg\<rparr>)"
    using vf by (simp add: prepare_outputs_def ov loop format_outputs_def)
  also have "s\<lparr>output_format := Some fv, output_variables := reg\<rparr>
               = self'\<lparr>output_format := Some fv\<rparr>"
    by (cases s) (simp add: s' s1)
  finally have ev: "evaluate (self\<lparr>output_format := Some fv\<rparr>) inp
                      = Inr (VariableOut reg, self'\<lparr>output_format := Some fv\<rparr>)" .
  have "\<forall>(k, v) \<in> set reg. variable_type v = ''scalar'' \<longrightarrow>
                 (\<exists>t x. map_of p k = Some t \<and> item t = Inr x \<and> var_value v = PyFloat x)"
    using scalar_entries [OF keys names loop] by blast
  with out ev show ?thesis by blast
qed

theorem variable_and_tensor_formats_agree_witness:
  "map_of [(''type'', ''tensor'')] ''type'' = Some ''tensor''
   \<and> map_of [(''type'', ''variable'')] ''type'' = Some ''variable''
   \<and> distinct (map fst (output_variables demo))
   \<and> map (name \<circ> snd) (output_variables demo) = map fst (output_variables demo)
   \<and> evaluate (demo\<lparr>output_format := Some [(''type'', ''tensor'')]\<rparr>) demo_call
       = Inr (TensorOut demo_parsed,
              demo_prepared\<lparr>output_format := Some [(''type'', ''tensor'')],
                            output_variables := demo_outputs_after\<rparr>)
   \<and> (\<exists>p reg. TensorOut demo_parsed = TensorOut p
           \<and> evaluate (demo\<lparr>output_format := Some [(''type'', ''variable'')]\<rparr>) demo_call
               = Inr (VariableOut reg,
                      demo_prepared\<lparr>output_format := Some [(''type'', ''tensor'')],
                                    output_variables := demo_outputs_after,
                                    output_format := Some [(''type'', ''variable'')]\<rparr>)
           \<and> (\<forall>(k, v) \<in> set reg. variable_type v = ''scalar'' \<longrightarrow>
                 (\<exists>t x. map_of p k = Some t \<and> item t = Inr x \<and> var_value v = PyFloat x)))"
proof -
  have h1: "map_of [(''type'', ''tensor'')] ''type'' = Some ''tensor''"
    by simp
  have h2: "map_of [(''type'', ''variable'')] ''type'' = Some ''variable''"
    by simp
  have h3: "distinct (map fst (output_variables demo))"
    by (simp add: demo_def)
  have h4: "\<forall>(key, var) \<in> set (output_variables demo). name var = key"
    by (simp add: demo_def demo_scalar_def demo_image_def)
  have h5: "evaluate (demo\<lparr>output_format := Some [(''type'', ''tensor'')]\<rparr>) demo_call
       = Inr (TensorOut demo_parsed,
              demo_prepared\<lparr>output_format := Some [(''type'', ''tensor'')],
                            output_variables := demo_outputs_after\<rparr>)"
    by (simp add: demo_evaluate_format format_outputs_def)
  have h4': "map (name \<circ> snd) (output_variables demo) = map fst (output_variables demo)"
    by (simp add: demo_def demo_scalar_def demo_image_def)
  from variable_and_tensor_formats_agree [OF h1 h2 h3 h4 h5] h1 h2 h3 h4' h5
  show ?thesis by blast
qed

text \<open>
  Claim C7. With registry keys that are distinct and equal to the names of their
  variables: after a call that returns, each bound of an image variable whose
  back-reference is set (a non-empty name) is the scalar of the referenced entry of
  this call's parsed outputs, which is also the value now stored in the referenced
  variable when that is a scalar output; each bound whose back-reference is \<^verbatim>\<open>None\<close>
  or empty is what it was before the call.
\<close>

theorem image_bounds_follow_referenced_outputs:
  assumes ok: "evaluate self inp = Inr (out, self')"
    and keys: "distinct (map fst (output_variables self))"
    and names: "\<forall>(key, var) \<in> set (output_variables self). name var = key"
    and v: "(k, v) \<in> set (output_variables self)"
    and image: "variable_type v = ''image''"
  shows "\<exists>p s v'. evaluate_until_parse self inp = Inr (p, s)
     \<and> map_of (output_variables self') k = Some v'
     \<and> (\<forall>r. x_min_variable v = Some r \<longrightarrow> r \<noteq> [] \<longrightarrow>
           (\<exists>t. map_of p r = Some t \<and> item t = Inr (x_min v')))
     \<and> (x_min_variable v = None \<or> x_min_variable v = Some [] \<longrightarrow> x_min v' = x_min v)
     \<and> (\<forall>r. x_max_variable v = Some r \<longrightarrow> r \<noteq> [] \<longrightarrow>
           (\<exists>t. map_of p r = Some t \<and> item t = Inr (x_max v')))
     \<and> (x_max_variable v = None \<or> x_max_variable v = Some [] \<longrightarrow> x_max v' = x_max v)
     \<and> (\<forall>r. y_min_variable v = Some r \<longrightarrow> r \<noteq> [] \<longrightarrow>
           (\<exists>t. map_of p r = Some t \<and> item t = Inr (y_min v')))
     \<and> (y_min_variable v = None \<or> y_min_variable v = Some [] \<longrightarrow> y_min v' = y_min v)
     \<and> (\<forall>r. y_max_variable v = Some r \<longrightarrow> r \<noteq> [] \<longrightarrow>
           (\<exists>t. map_of p r = Some t \<and> item t = Inr (y_max v')))
     \<and> (y_max_variable v = None \<or> y_max_variable v = Some [] \<longrightarrow> y_max v' = y_max v)
     \<and> (\<forall>r w. (r, w) \<in> set (output_variables self) \<longrightarrow> variable_type w = ''scalar'' \<longrightarrow>
           (\<exists>t x. map_of p r = Some t \<and> item t = Inr x
              \<and> map_of (output_variables self') r = Some (w\<lparr>var_value := PyFloat x\<rparr>)))"
proof -
  from ok obtain p s where
    up: "evaluate_until_parse self inp = Inr (p, s)"
    and po: "prepare_outputs s p = Inr (out, self')"
    by (auto simp: evaluate_Inr)
  have ov: "output_variables s = output_variables self"
    using up by (rule until_parse_output_variables)
  from po obtain reg where
    loop: "update_output_variables p (map snd (output_variables self)) (output_variables self)
             = Inr reg"
    and s': "output_variables self' = reg"
    by (auto simp: prepare_outputs_Inr ov)
  from image_final [OF keys names v image loop] obtain v' where
    v': "map_of reg k = Some v'"
    and b: "bound_value p (x_min_variable v) (x_min v) = Inr (x_min v')"
      "bound_value p (x_max_variable v) (x_max v) = Inr (x_max v')"
      "bound_value p (y_min_variable v) (y_min v) = Inr (y_min v')"
      "bound_value p (y_max_variable v) (y_max v) = Inr (y_max v')"
    by blast
  have sc: "\<forall>r w. (r, w) \<in> set (output_variables self) \<longrightarrow> variable_type w = ''scalar'' \<longrightarrow>
           (\<exists>t x. map_of p r = Some t \<and> item t = Inr x
              \<and> map_of reg r = Some (w\<lparr>var_value := PyFloat x\<rparr>))"
    using scalar_final [OF keys names _ _ loop] by blast
  from up v' sc bound_value_Inr [OF b(1)] bound_value_Inr [OF b(2)]
    bound_value_Inr [OF b(3)] bound_value_Inr [OF b(4)]
  show ?thesis
    unfolding s' by blast
qed

theorem image_bounds_follow_referenced_outputs_witness:
  "evaluate demo demo_call
     = Inr (VariableOut demo_outputs_after, demo_prepared\<lparr>output_variables := demo_outputs_after\<rparr>)
   \<and> distinct (map fst (output_variables demo))
   \<and> map (name \<circ> snd) (output_variables demo) = map fst (output_variables demo)
   \<and> (''img'', demo_image) \<in> set (output_variables demo)
   \<and> variable_type demo_image = ''image''
   \<and> x_min_variable demo_image = Some ''y''
   \<and> y_min_variable demo_image = Some []
   \<and> (\<exists>v'. map_of demo_outputs_after ''img'' = Some v'
          \<and> item (scalar_tensor 5) = Inr (x_min v') \<and> y_min v' = y_min demo_image)"
proof -
  have h2: "distinct (map fst (output_variables demo))"
    by (simp add: demo_def)
  have h3: "\<forall>(key, var) \<in> set (output_variables demo). name var = key"
    by (simp add: demo_def demo_scalar_def demo_image_def)
  have h4: "(''img'', demo_image) \<in> set (output_variables demo)"
    by (simp add: demo_def)
  have h5: "variable_type demo_image = ''image''"
    by (simp add: demo_image_def)
  have r1: "x_min_variable demo_image = Some ''y''" and r2: "y_min_variable demo_image = Some []"
    by (simp_all add: demo_image_def)
  from image_bounds_follow_referenced_outputs [OF demo_evaluate h2 h3 h4 h5]
  obtain p s v' where
    up: "evaluate_until_parse demo demo_call = Inr (p, s)"
    and v': "map_of (output_variables (demo_prepared\<lparr>output_variables := demo_outputs_after\<rparr>))
               ''img'' = Some v'"
    and x: "\<forall>r. x_min_variable demo_image = Some r \<longrightarrow> r \<noteq> [] \<longrightarrow>
           (\<exists>t. map_of p r = Some t \<and> item t = Inr (x_min v'))"
    and y: "y_min_variable demo_image = None \<or> y_min_variable demo_image = Some []
              \<longrightarrow> y_min v' = y_min demo_image"
    by blast
  from up have p: "p = demo_parsed"
    by (simp add: demo_until_parse)
  from x r1 obtain t where "map_of p ''y'' = Some t" "item t = Inr (x_min v')"
    by auto
  then have "item (scalar_tensor 5) = Inr (x_min v')"
    by (simp add: p demo_parsed_def)
  moreover from y r2 have "y_min v' = y_min demo_image"
    by simp
  moreover from v' have "map_of demo_outputs_after ''img'' = Some v'"
    by simp
  moreover have "map (name \<circ> snd) (output_variables demo) = map fst (output_variables demo)"
    by (simp add: demo_def demo_scalar_def demo_image_def)
  ultimately show ?thesis
    using demo_evaluate h2 h4 h5 r1 r2 by blast
qed

section \<open>Missing inputs\<close>

lemma resolve_no_KeyError: "resolve e \<noteq> Inl (KeyError n)"
  by (cases e rule: resolve.cases)
     (auto simp: item_def bind_eq_Inl split: list.splits)

lemma resolve_input_no_KeyError: "resolve_input inp kv \<noteq> Inl (KeyError n)"
  by (auto simp: resolve_input_def bind_eq_Inl resolve_no_KeyError split: option.splits prod.splits)

lemma as_tensor_no_KeyError: "as_tensor kv \<noteq> Inl (KeyError n)"
  by (cases kv; cases "var_value (snd kv)") (auto simp: as_tensor_def)

lemma prepare_inputs_no_KeyError: "prepare_inputs self inp \<noteq> Inl (KeyError n)"
proof
  assume a: "prepare_inputs self inp = Inl (KeyError n)"
  show False
  proof (cases "for_each (resolve_input inp) (input_variables self)")
    case (Inl e)
    with a have "for_each (resolve_input inp) (input_variables self) = Inl (KeyError n)"
      by (simp add: prepare_inputs_def)
    from for_each_Inl [OF this] obtain x where "resolve_input inp x = Inl (KeyError n)"
      by auto
    then show False
      by (simp add: resolve_input_no_KeyError)
  next
    case (Inr rs)
    with a have "for_each as_tensor (map fst rs) = Inl (KeyError n)"
      by (cases "for_each as_tensor (map fst rs)") (simp_all add: prepare_inputs_def)
    from for_each_Inl [OF this] obtain x where "as_tensor x = Inl (KeyError n)"
      by auto
    then show False
      by (simp add: as_tensor_no_KeyError)
  qed
qed

lemma resolve_input_with_defaults:
  assumes "map_of (input_variables self) k = Some var"
  shows "resolve_input (with_defaults self inp) (k, var)
           = bind (resolve_input inp (k, var)) (\<lambda>(kv, lg). Inr (kv, []))"
proof (cases "inp k")
  case None
  with assms show ?thesis
    by (simp add: resolve_input_def with_defaults_def)
next
  case (Some e)
  then show ?thesis
    by (cases "resolve e") (simp_all add: resolve_input_def with_defaults_def)
qed

lemma for_each_with_defaults:
  assumes "\<forall>(k, var) \<in> set xs. map_of (input_variables self) k = Some var"
  shows "for_each (resolve_input (with_defaults self inp)) xs
           = bind (for_each (resolve_input inp) xs) (\<lambda>rs. Inr (map (\<lambda>(kv, lg). (kv, [])) rs))"
  using assms
proof (induction xs)
  case Nil
  show ?case by simp
next
  case (Cons x xs)
  obtain k var where x: "x = (k, var)" by (cases x)
  with Cons.prems have "map_of (input_variables self) k = Some var"
    by simp
  note step = resolve_input_with_defaults [OF this, of inp]
  from Cons have rest: "for_each (resolve_input (with_defaults self inp)) xs
           = bind (for_each (resolve_input inp) xs) (\<lambda>rs. Inr (map (\<lambda>(kv, lg). (kv, [])) rs))"
    by simp
  show ?case
    by (cases "resolve_input inp (k, var)"; cases "for_each (resolve_input inp) xs")
       (auto simp: x step rest)
qed

lemma for_each_resolve_log:
  "for_each (resolve_input inp) xs = Inr rs \<Longrightarrow>
     concat (map snd rs) = map MissingInput [k \<leftarrow> map fst xs. inp k = None]"
proof (induction xs arbitrary: rs)
  case Nil
  then show ?case by simp
next
  case (Cons x xs)
  from Cons.prems obtain r rs' where
    r: "resolve_input inp x = Inr r" and rs': "for_each (resolve_input inp) xs = Inr rs'"
    and rs: "rs = r # rs'"
    by (auto simp: bind_eq_Inr)
  from r have "snd r = (if inp (fst x) = None then [MissingInput (fst x)] else [])"
    by (cases x) (auto simp: resolve_input_def bind_eq_Inr split: option.splits)
  with Cons.IH [OF rs'] show ?case
    by (simp add: rs)
qed

lemma prepare_inputs_with_defaults:
  assumes keys: "distinct (map fst (input_variables self))"
  shows "prepare_inputs self inp
           = bind (prepare_inputs self (with_defaults self inp))
               (\<lambda>(d, s). Inr (d, s\<lparr>logged := logged self @ map MissingInput
                                   [k \<leftarrow> map fst (input_variables self). inp k = None]\<rparr>))"
proof -
  from keys have "\<forall>(k, var) \<in> set (input_variables self).
                    map_of (input_variables self) k = Some var"
    by auto
  note fe = for_each_with_defaults [OF this, of inp]
  show ?thesis
  proof (cases "for_each (resolve_input inp) (input_variables self)")
    case (Inl e)
    then show ?thesis
      by (simp add: prepare_inputs_def fe)
  next
    case (Inr rs)
    have m: "map (fst \<circ> (\<lambda>(kv, lg). (kv, []))) rs = map fst rs"
      "concat (map (snd \<circ> (\<lambda>(kv, lg :: log_record list). (kv, [] :: log_record list))) rs) = []"
      by (induction rs) auto
    from Inr show ?thesis
      by (cases "for_each as_tensor (map fst rs)")
         (simp_all add: prepare_inputs_def fe m for_each_resolve_log [OF Inr])
  qed
qed

lemma until_parse_logged:
  assumes "prepare_inputs self inp = bind (prepare_inputs self inp')
             (\<lambda>(d, s). Inr (d, s\<lparr>logged := l\<rparr>))"
  shows "evaluate_until_parse self inp
           = bind (evaluate_until_parse self inp') (\<lambda>(p, s). Inr (p, s\<lparr>logged := l\<rparr>))"
  by (cases "prepare_inputs self inp'")
     (auto simp: evaluate_until_parse_def assms bind_assoc
        arrange_inputs_def transform_inputs_def transform_outputs_def parse_outputs_def
      cong: option.case_cong)

lemma prepare_outputs_logged:
  "prepare_outputs (s\<lparr>logged := l\<rparr>) p
     = bind (prepare_outputs s p) (\<lambda>(out, s'). Inr (out, s'\<lparr>logged := l\<rparr>))"
proof -
  have "s\<lparr>logged := l, output_variables := reg\<rparr> = s\<lparr>output_variables := reg, logged := l\<rparr>"
    for reg
    by (cases s) simp
  then show ?thesis
    by (cases "update_output_variables p (map snd (output_variables s)) (output_variables s)")
       (auto simp: prepare_outputs_def format_outputs_def split: option.splits)
qed

lemma evaluate_with_defaults:
  assumes keys: "distinct (map fst (input_variables self))"
  shows "evaluate self inp
         = bind (evaluate self (with_defaults self inp))
             (\<lambda>(out, s). Inr (out, s\<lparr>logged := logged self @ map MissingInput
                                   [k \<leftarrow> map fst (input_variables self). inp k = None]\<rparr>))"
proof (cases "evaluate_until_parse self (with_defaults self inp)")
  case (Inl e)
  then show ?thesis
    by (simp add: evaluate_factor
        until_parse_logged [OF prepare_inputs_with_defaults [OF keys, of inp]])
next
  case (Inr ps)
  obtain p s where ps: "ps = (p, s)" by (cases ps)
  show ?thesis
    by (cases "prepare_outputs s p")
       (auto simp: evaluate_factor Inr ps prepare_outputs_logged
          until_parse_logged [OF prepare_inputs_with_defaults [OF keys, of inp]])
qed

lemma list_all2_keys:
  "list_all2 (\<lambda>x y. key' y = key x) xs ys \<Longrightarrow> map key' ys = map key xs"
  by (induction rule: list_all2_induct) auto

lemma resolve_input_key: "resolve_input inp kv = Inr r \<Longrightarrow> fst (fst r) = fst kv"
  by (cases kv) (auto simp: resolve_input_def bind_eq_Inr split: option.splits)

lemma as_tensor_key: "as_tensor kv = Inr kt \<Longrightarrow> fst kt = fst kv"
  by (cases kv; cases "var_value (snd kv)") (auto simp: as_tensor_def bind_eq_Inr)

lemma prepare_inputs_keys:
  assumes "prepare_inputs self inp = Inr (d, s)"
  shows "map fst d = map fst (input_variables self)"
proof -
  from assms obtain rs where
    rs: "list_all2 (\<lambda>kv r. resolve_input inp kv = Inr r) (input_variables self) rs"
    and d: "list_all2 (\<lambda>kv kt. as_tensor kv = Inr kt) (map fst rs) d"
    unfolding prepare_inputs_Inr by blast
  from rs have "list_all2 (\<lambda>kv r. (fst \<circ> fst) r = fst kv) (input_variables self) rs"
    by (rule list_all2_mono) (simp add: resolve_input_key)
  then have 1: "map (fst \<circ> fst) rs = map fst (input_variables self)"
    by (rule list_all2_keys)
  from d have "list_all2 (\<lambda>kv kt. fst kt = fst kv) (map fst rs) d"
    by (rule list_all2_mono) (simp add: as_tensor_key)
  then have "map fst d = map fst (map fst rs)"
    by (rule list_all2_keys)
  with 1 show ?thesis by simp
qed

lemma prepare_inputs_substitutes:
  assumes ok: "prepare_inputs self inp = Inr (d, s)" and i: "i < length (input_variables self)"
    and kv: "input_variables self ! i = (k, var)" and absent: "inp k = None"
  shows "input_variables s ! i = (k, var\<lparr>var_value := var_default var\<rparr>)"
proof -
  from ok obtain rs where
    rs: "list_all2 (\<lambda>kv r. resolve_input inp kv = Inr r) (input_variables self) rs"
    and "s = self\<lparr>input_variables := map fst rs,
                       logged := logged self @ concat (map snd rs)\<rparr>"
    unfolding prepare_inputs_Inr by blast
  then have s: "input_variables s = map fst rs"
    by simp
  from rs i have len: "i < length rs"
    by (simp add: list_all2_lengthD)
  from rs i kv have "resolve_input inp (k, var) = Inr (rs ! i)"
    by (auto dest: list_all2_nthD)
  with absent have "rs ! i = ((k, var\<lparr>var_value := var_default var\<rparr>), [MissingInput k])"
    by (simp add: resolve_input_def)
  with len show ?thesis
    by (simp add: s)
qed

text \<open>
  Claim C1. A registered input name that the caller's dictionary lacks never makes
  input normalisation raise a \<^verbatim>\<open>KeyError\<close>: the variable takes its stored default and
  the substitution is logged. With distinct registry keys, the call then does exactly
  what the call with these defaults supplied by hand does: it raises the same error or
  returns the same output and registries, and differs only in the log, which has one
  record per missing name. So the call with a missing input returns its complete output
  whenever the call with the default supplied by hand does.
\<close>

theorem missing_input_uses_default:
  assumes keys: "distinct (map fst (input_variables self))"
  shows "(\<forall>n. prepare_inputs self inp \<noteq> Inl (KeyError n))
     \<and> evaluate self inp
         = bind (evaluate self (with_defaults self inp))
             (\<lambda>(out, s). Inr (out, s\<lparr>logged := logged self @ map MissingInput
                                   [k \<leftarrow> map fst (input_variables self). inp k = None]\<rparr>))
     \<and> (\<forall>d s i k var. prepare_inputs self inp = Inr (d, s) \<longrightarrow>
           i < length (input_variables self) \<longrightarrow> input_variables self ! i = (k, var) \<longrightarrow>
           inp k = None \<longrightarrow>
             input_variables s ! i = (k, var\<lparr>var_value := var_default var\<rparr>)
             \<and> map fst d = map fst (input_variables self))"
  using prepare_inputs_no_KeyError [of self inp] evaluate_with_defaults [OF keys, of inp]
    prepare_inputs_substitutes [of self inp] prepare_inputs_keys [of self inp]
  by blast

theorem missing_input_uses_default_witness:
  "distinct (map fst (input_variables demo))
   \<and> demo_call ''x2'' = None
   \<and> (\<forall>n. prepare_inputs demo demo_call \<noteq> Inl (KeyError n))
   \<and> evaluate demo demo_call
         = bind (evaluate demo (with_defaults demo demo_call))
             (\<lambda>(out, s). Inr (out, s\<lparr>logged := logged demo @ map MissingInput
                                   [k \<leftarrow> map fst (input_variables demo). demo_call k = None]\<rparr>))
   \<and> input_variables demo_prepared ! 1
         = (''x2'', \<lparr>name = ''x2'', var_value = PyFloat 2, var_default = PyFloat 2\<rparr>)
   \<and> evaluate demo demo_call
         = Inr (VariableOut demo_outputs_after,
                demo_prepared\<lparr>output_variables := demo_outputs_after\<rparr>)"
proof -
  have h: "distinct (map fst (input_variables demo))"
    by (simp add: demo_def demo_inputs_def)
  have absent: "demo_call ''x2'' = None"
    by (simp add: demo_call_def)
  have i: "1 < length (input_variables demo)"
    and kv: "input_variables demo ! 1
               = (''x2'', \<lparr>name = ''x2'', var_value = PyNone, var_default = PyFloat 2\<rparr>)"
    by (simp_all add: demo_def demo_inputs_def)
  note c1 = missing_input_uses_default [OF h, of demo_call]
  from c1 demo_prepare_inputs i kv absent
  have "input_variables demo_prepared ! 1
          = (''x2'', \<lparr>name = ''x2'', var_value = PyNone, var_default = PyFloat 2\<rparr>
                      \<lparr>var_value := var_default
                          \<lparr>name = ''x2'', var_value = PyNone, var_default = PyFloat 2\<rparr>\<rparr>)"
    by blast
  then have "input_variables demo_prepared ! 1
         = (''x2'', \<lparr>name = ''x2'', var_value = PyFloat 2, var_default = PyFloat 2\<rparr>)"
    by simp
  with c1 h absent demo_evaluate show ?thesis
    by blast
qed

end
